theory Spec2Isabelle
  imports Main "HOL-Library.Sublist" "HOL-Library.AList"
begin

section \<open>The Alibaba scraper (src/alibaba_scraper.py)\<close>

text \<open>
  The program drives a browser through Playwright. The browser is not part of the
  repository, so every driver object (browser, browsing context, page, result item, file
  chooser) is a record holding, for each method the program calls on it, what that call
  answers: a value, or an exception. The program itself is embedded as written: every
  \<^verbatim>\<open>await\<close> is a step that may raise, every \<^verbatim>\<open>try/except/finally\<close> is a
  combinator, and every driver call and every \<^verbatim>\<open>print\<close> is recorded, in order, in a
  trace of events.

  Timeouts and the \<^verbatim>\<open>wait_until\<close> option are arguments of the driver calls that
  only influence what the driver answers; they are left out of the calls. Cancellation
  (an exception that is not a subclass of \<^verbatim>\<open>Exception\<close>) is not modelled.
\<close>

subsection \<open>Exceptions, dictionaries, events\<close>

text \<open>
  The exceptions the program meets, all subclasses of \<^verbatim>\<open>Exception\<close>: Playwright's
  \<^verbatim>\<open>Error\<close> and \<^verbatim>\<open>TimeoutError\<close>, the \<^verbatim>\<open>RuntimeError\<close> of
  \<^verbatim>\<open>_get_new_page\<close>, and \<^verbatim>\<open>OSError\<close> for a file that cannot be written. Each
  carries its message, which is what an f-string prints of it.
\<close>

datatype error = Error string | TimeoutError string | RuntimeError string | OSError string

fun str_error :: "error \<Rightarrow> string" where
  "str_error (Error m) = m"
| "str_error (TimeoutError m) = m"
| "str_error (RuntimeError m) = m"
| "str_error (OSError m) = m"

text \<open>
  A Python dictionary keeps its keys in insertion order: an association list. Assigning to
  a key that is present replaces the value in place, assigning to a new key appends, which
  is \<^const>\<open>AList.update\<close>; \<^verbatim>\<open>d.update(e)\<close> assigns the items of \<open>e\<close> in order.
\<close>

datatype pyval = PyNone | PyStr string | PyList "string list"

type_synonym pydict = "(string \<times> pyval) list"

definition dict_update :: "pydict \<Rightarrow> pydict \<Rightarrow> pydict" where
  "dict_update d e = fold (\<lambda>(k, v). AList.update k v) e d"


fun py_text :: "string option \<Rightarrow> pyval" where
  "py_text None = PyNone"
| "py_text (Some s) = PyStr s"

fun str_text :: "string option \<Rightarrow> string" where
  "str_text None = ''None''"
| "str_text (Some s) = s"

definition digit_char :: "nat \<Rightarrow> char" where
  "digit_char d = ''0123456789'' ! d"

function str_nat :: "nat \<Rightarrow> string" where
  "str_nat n = (if n < 10 then [digit_char n] else str_nat (n div 10) @ [digit_char (n mod 10)])"
  by pat_completeness auto
termination
  by (relation "measure id") auto

declare str_nat.simps [simp del]

definition startswith :: "string \<Rightarrow> string \<Rightarrow> bool" where
  "startswith s p = prefix p s"

text \<open>The events of a run: the driver calls, with the page or item they address, and the prints.\<close>

datatype event =
    Print string
  | BrowserNewPage
  | ContextNewPage
  | Goto nat string
  | IsVisible nat string
  | Click nat string
  | Content nat
  | Screenshot nat string
  | Close nat
  | WaitForSelector nat string
  | WaitForTimeout nat nat
  | LocatorAll nat string
  | LocatorFill nat string string
  | LocatorClick nat string
  | FileChooser nat
  | SetFiles string
  | TextContent nat string
  | GetAttribute nat string string

text \<open>An awaited step: the value it returns or the exception it raises, and the events it made.\<close>

type_synonym 'a result = "(error + 'a) \<times> event list"

definition ok :: "'a \<Rightarrow> 'a result" where
  "ok x = (Inr x, [])"

definition raise :: "error \<Rightarrow> 'a result" where
  "raise e = (Inl e, [])"

definition effect :: "event \<Rightarrow> error + 'a \<Rightarrow> 'a result" where
  "effect ev r = (r, [ev])"

definition py_print :: "string \<Rightarrow> unit result" where
  "py_print s = (Inr (), [Print s])"

definition after :: "event list \<Rightarrow> 'a result \<Rightarrow> 'a result" where
  "after l m = (fst m, l @ snd m)"

text \<open>Sequencing: an exception of the first step skips the rest.\<close>

definition then_do :: "'a result \<Rightarrow> ('a \<Rightarrow> 'b result) \<Rightarrow> 'b result" where
  "then_do m f = (case fst m of Inl e \<Rightarrow> (Inl e, snd m) | Inr x \<Rightarrow> after (snd m) (f x))"

text \<open>\<^verbatim>\<open>try: m  except Exception as e: h e\<close>\<close>

definition try_except :: "'a result \<Rightarrow> (error \<Rightarrow> 'a result) \<Rightarrow> 'a result" where
  "try_except m h = (case fst m of Inl e \<Rightarrow> after (snd m) (h e) | Inr x \<Rightarrow> m)"

text \<open>
  \<^verbatim>\<open>try: m  finally: c\<close>: the clean-up runs on every exit of \<open>m\<close>; when it raises, its
  exception replaces the outcome of \<open>m\<close>, otherwise that outcome stands.
\<close>

definition try_finally :: "'a result \<Rightarrow> unit result \<Rightarrow> 'a result" where
  "try_finally m c = (case fst c of Inl e \<Rightarrow> (Inl e, snd m @ snd c) | Inr u \<Rightarrow> (fst m, snd m @ snd c))"

subsection \<open>The driver's objects\<close>

record item =
  item_id :: nat
  item_text_content :: "string \<Rightarrow> error + string option"
  item_get_attribute :: "string \<Rightarrow> string \<Rightarrow> error + string option"

record file_chooser =
  fc_set_files :: "string \<Rightarrow> error + unit"

record page =
  page_id :: nat
  page_goto :: "string \<Rightarrow> error + unit"
  page_is_visible :: "string \<Rightarrow> error + bool"
  page_click :: "string \<Rightarrow> error + unit"
  page_content :: "error + string"
  page_screenshot :: "string \<Rightarrow> error + unit"
  page_close :: "error + unit"
  page_wait_for_selector :: "string \<Rightarrow> error + unit"
  page_wait_for_timeout :: "nat \<Rightarrow> error + unit"
  page_locator_all :: "string \<Rightarrow> error + item list"
  page_locator_fill :: "string \<Rightarrow> string \<Rightarrow> error + unit"
  page_locator_click :: "string \<Rightarrow> error + unit"
  page_file_chooser :: "error + file_chooser"

record browser_context =
  ctx_new_page :: "error + page"

text \<open>
  \<^verbatim>\<open>browser.contexts\<close> is a property the driver recomputes at every read, and a
  context opens a fresh page at every \<^verbatim>\<open>new_page()\<close>. The program reads the
  property while it processes one result item (twice, with no \<^verbatim>\<open>await\<close> in between,
  so both reads agree) and opens at most one page per item, so the answer is indexed by
  the position of the item being processed.
\<close>

record browser =
  browser_new_page :: "error + page"
  browser_contexts :: "nat \<Rightarrow> browser_context list"

text \<open>
  The scraper object: \<open>browser\<close> is \<^verbatim>\<open>self._browser\<close>, \<^verbatim>\<open>None\<close> until the scraper
  is entered and after it is left. Entering and leaving (\<^verbatim>\<open>__aenter__\<close>,
  \<^verbatim>\<open>__aexit__\<close>) and \<^verbatim>\<open>main\<close> are not modelled: an initialized scraper is one whose
  \<open>browser\<close> is \<open>Some\<close> browser.
\<close>

record scraper =
  headless :: bool
  browser :: "browser option"

text \<open>The driver calls, as steps.\<close>

definition goto :: "page \<Rightarrow> string \<Rightarrow> unit result" where
  "goto p url = effect (Goto (page_id p) url) (page_goto p url)"

definition is_visible :: "page \<Rightarrow> string \<Rightarrow> bool result" where
  "is_visible p sel = effect (IsVisible (page_id p) sel) (page_is_visible p sel)"

definition click :: "page \<Rightarrow> string \<Rightarrow> unit result" where
  "click p sel = effect (Click (page_id p) sel) (page_click p sel)"

definition content :: "page \<Rightarrow> string result" where
  "content p = effect (Content (page_id p)) (page_content p)"

definition screenshot :: "page \<Rightarrow> string \<Rightarrow> unit result" where
  "screenshot p path = effect (Screenshot (page_id p) path) (page_screenshot p path)"

definition close :: "page \<Rightarrow> unit result" where
  "close p = effect (Close (page_id p)) (page_close p)"

definition wait_for_selector :: "page \<Rightarrow> string \<Rightarrow> unit result" where
  "wait_for_selector p sel = effect (WaitForSelector (page_id p) sel) (page_wait_for_selector p sel)"

definition wait_for_timeout :: "page \<Rightarrow> nat \<Rightarrow> unit result" where
  "wait_for_timeout p ms = effect (WaitForTimeout (page_id p) ms) (page_wait_for_timeout p ms)"

definition locator_all :: "page \<Rightarrow> string \<Rightarrow> item list result" where
  "locator_all p sel = effect (LocatorAll (page_id p) sel) (page_locator_all p sel)"

definition locator_fill :: "page \<Rightarrow> string \<Rightarrow> string \<Rightarrow> unit result" where
  "locator_fill p sel txt = effect (LocatorFill (page_id p) sel txt) (page_locator_fill p sel txt)"

definition locator_click :: "page \<Rightarrow> string \<Rightarrow> unit result" where
  "locator_click p sel = effect (LocatorClick (page_id p) sel) (page_locator_click p sel)"

definition file_chooser_value :: "page \<Rightarrow> file_chooser result" where
  "file_chooser_value p = effect (FileChooser (page_id p)) (page_file_chooser p)"

definition set_files :: "file_chooser \<Rightarrow> string \<Rightarrow> unit result" where
  "set_files fc path = effect (SetFiles path) (fc_set_files fc path)"

definition text_content :: "item \<Rightarrow> string \<Rightarrow> string option result" where
  "text_content it sel = effect (TextContent (item_id it) sel) (item_text_content it sel)"

definition get_attribute :: "item \<Rightarrow> string \<Rightarrow> string \<Rightarrow> string option result" where
  "get_attribute it sel name = effect (GetAttribute (item_id it) sel name) (item_get_attribute it sel name)"

subsection \<open>class AlibabaScraper\<close>

text \<open>
  The selector table of \<^verbatim>\<open>__init__\<close>. Every subscript of the program names a key of
  the table by a literal, so no lookup raises \<^verbatim>\<open>KeyError\<close>.
\<close>

definition selectors :: "(string \<times> string) list" where
  "selectors =
    [(''popup_consent_button'', ''button:has-text('Consent')''),
     (''popup_close_button'', ''div.dialog-close-btn''),
     (''image_search_camera_icon'', ''svg.icon-camera''),
     (''text_search_bar'', ''input.search-bar-input''),
     (''text_search_button'', ''button.search-bar-button''),
     (''product_item'', ''div.product-item-selector''),
     (''product_title'', ''h2.title-selector''),
     (''product_company_summary'', ''div.company-summary-selector''),
     (''product_link'', ''a.product-link-selector''),
     (''product_detail_full_description'', ''div.full-description-selector''),
     (''product_detail_images'', ''img.detail-image-selector''),
     (''product_detail_price'', ''span.price-selector''),
     (''product_detail_company_years'', ''span.company-years-selector''),
     (''product_detail_verified_status'', ''span.verified-tag-selector'')]"

definition selector :: "string \<Rightarrow> string" where
  "selector k = (case map_of selectors k of Some s \<Rightarrow> s | None \<Rightarrow> [])"

text \<open>\<^verbatim>\<open>_get_new_page\<close> (lines 63-66).\<close>

definition get_new_page :: "scraper \<Rightarrow> page result" where
  "get_new_page self =
    (case browser self of
       None \<Rightarrow> raise (RuntimeError
         ''Browser not initialized. Use 'async with AlibabaScraper() as scraper:'.'')
     | Some b \<Rightarrow> effect BrowserNewPage (browser_new_page b))"

text \<open>\<^verbatim>\<open>_close_initial_popups\<close> (lines 68-82): the whole body is one guarded block.\<close>

definition close_initial_popups :: "page \<Rightarrow> unit result" where
  "close_initial_popups page =
    try_except
      (let consent_button_sel = selector ''popup_consent_button'';
           close_button_sel = selector ''popup_close_button''
       in then_do (is_visible page consent_button_sel) (\<lambda>consent.
            if consent then
              then_do (click page consent_button_sel) (\<lambda>_.
              py_print ''Clicked consent pop-up.'')
            else
              then_do (is_visible page close_button_sel) (\<lambda>closable.
                if closable then
                  then_do (click page close_button_sel) (\<lambda>_.
                  py_print ''Clicked close button on pop-up.'')
                else ok ())))
      (\<lambda>e. py_print
         (''No initial pop-up to close or error closing it (this might be normal): '' @ str_error e))"

text \<open>
  \<^verbatim>\<open>_extract_product_details_from_product_page\<close> (lines 84-123). The dictionary
  \<open>details\<close> is assigned once, after the last step of the guarded block that can raise, so
  the handler still sees the initial dictionary. \<open>product_page\<close> is \<^verbatim>\<open>None\<close> in the
  handler and in the clean-up exactly when \<^verbatim>\<open>context.new_page()\<close> raised.
\<close>

definition initial_details :: "string \<Rightarrow> pydict" where
  "initial_details product_url =
    [(''url'', PyStr product_url),
     (''full_description'', PyStr ''N/A''), (''images'', PyList []), (''html_content'', PyStr ''N/A''),
     (''price_per_unit'', PyStr ''N/A''), (''company_years'', PyStr ''N/A''),
     (''verified_supplier'', PyStr ''N/A'')]"

text \<open>\<^verbatim>\<open>product_url.split('/')[-1]\<close>: what follows the last slash.\<close>

definition last_segment :: "string \<Rightarrow> string" where
  "last_segment s = rev (takeWhile (\<lambda>c. c \<noteq> CHR ''/'') (rev s))"

definition error_product_page_path :: "string \<Rightarrow> string" where
  "error_product_page_path product_url = ''error_product_page_'' @ last_segment product_url @ ''.png''"

definition extract_details_body :: "string \<Rightarrow> page \<Rightarrow> pydict \<Rightarrow> pydict result" where
  "extract_details_body product_url product_page details =
    then_do (py_print (''Navigating to product detail page: '' @ product_url)) (\<lambda>_.
    then_do (goto product_page product_url) (\<lambda>_.
    then_do (close_initial_popups product_page) (\<lambda>_.
    then_do (content product_page) (\<lambda>html.
    then_do (py_print (''Extracted (placeholder) details for: '' @ product_url)) (\<lambda>_.
    ok (AList.update ''html_content'' (PyStr html) details))))))"

definition extract_details_handler :: "string \<Rightarrow> page option \<Rightarrow> pydict \<Rightarrow> error \<Rightarrow> pydict result" where
  "extract_details_handler product_url product_page details e =
    then_do (py_print (''Error extracting full details for '' @ product_url @ '': '' @ str_error e)) (\<lambda>_.
    case product_page of
      None \<Rightarrow> ok details
    | Some p \<Rightarrow> then_do (screenshot p (error_product_page_path product_url)) (\<lambda>_. ok details))"

definition extract_product_details_from_product_page :: "string \<Rightarrow> browser_context \<Rightarrow> pydict result" where
  "extract_product_details_from_product_page product_url ctx =
    (let details = initial_details product_url in
     case ctx_new_page ctx of
       Inl e \<Rightarrow> after [ContextNewPage] (extract_details_handler product_url None details e)
     | Inr product_page \<Rightarrow>
         after [ContextNewPage]
           (try_finally
              (try_except (extract_details_body product_url product_page details)
                 (extract_details_handler product_url (Some product_page) details))
              (close product_page)))"

text \<open>
  \<^verbatim>\<open>_parse_search_results\<close> (lines 125-190). Lines 154-163 decide what becomes of the
  link attribute: the item is skipped when there is none, or when the address, after the
  two rewrites, does not start with \<^verbatim>\<open>http\<close>.
\<close>

datatype url_outcome = NoUrl | InvalidUrl string | ValidUrl string

definition normalize_url :: "string option \<Rightarrow> url_outcome" where
  "normalize_url href =
    (case href of
       None \<Rightarrow> NoUrl
     | Some u \<Rightarrow>
         if u = [] then NoUrl
         else
           let product_url =
             (if startswith u ''//'' then ''https:'' @ u
              else if startswith u ''/'' then ''https://www.alibaba.com'' @ u
              else u)
           in if \<not> startswith product_url ''http'' then InvalidUrl product_url
              else ValidUrl product_url)"

definition product_summary_of :: "string option \<Rightarrow> string option \<Rightarrow> string \<Rightarrow> pydict" where
  "product_summary_of title company_summary product_url =
    [(''title'', py_text title),
     (''company_summary'', py_text company_summary),
     (''product_page_url'', PyStr product_url),
     (''full_description'', PyStr ''N/A''), (''images'', PyList []), (''html_content'', PyStr ''N/A''),
     (''price_per_unit'', PyStr ''N/A''), (''company_years'', PyStr ''N/A''),
     (''verified_supplier'', PyStr ''N/A'')]"

text \<open>Lines 176-180: the details are fetched and merged when a browsing context is there.\<close>

definition fetch_full_details :: "scraper \<Rightarrow> nat \<Rightarrow> string \<Rightarrow> pydict \<Rightarrow> pydict result" where
  "fetch_full_details self i product_url product_summary =
    (case browser self of
       None \<Rightarrow> then_do (py_print ''Browser context not available for fetching full details.'') (\<lambda>_.
                ok product_summary)
     | Some b \<Rightarrow>
         (case browser_contexts b i of
            [] \<Rightarrow> then_do (py_print ''Browser context not available for fetching full details.'') (\<lambda>_.
                  ok product_summary)
          | ctx # _ \<Rightarrow>
              then_do (extract_product_details_from_product_page product_url ctx) (\<lambda>full_details.
              ok (dict_update product_summary full_details))))"

text \<open>
  The guarded block of one iteration (lines 149-183): \<open>Some\<close> the record it appends to
  \<open>products_data\<close>, or \<open>None\<close> when it leaves by \<^verbatim>\<open>continue\<close>.
\<close>

definition process_item :: "scraper \<Rightarrow> nat \<Rightarrow> item \<Rightarrow> pydict option result" where
  "process_item self i item_locator =
    then_do (text_content item_locator (selector ''product_title'')) (\<lambda>title.
    then_do (text_content item_locator (selector ''product_company_summary'')) (\<lambda>company_summary.
    then_do (get_attribute item_locator (selector ''product_link'') ''href'') (\<lambda>href.
      case normalize_url href of
        NoUrl \<Rightarrow>
          then_do (py_print (''Item '' @ str_nat (i + 1) @ '': Could not find product URL.'')) (\<lambda>_.
          ok None)
      | InvalidUrl product_url \<Rightarrow>
          then_do (py_print (''Item '' @ str_nat (i + 1) @ '': Invalid product URL format: '' @ product_url)) (\<lambda>_.
          ok None)
      | ValidUrl product_url \<Rightarrow>
          then_do (fetch_full_details self i product_url
                     (product_summary_of title company_summary product_url)) (\<lambda>product_summary.
          then_do (py_print (''Item '' @ str_nat (i + 1) @ '': Processed product - '' @ str_text title)) (\<lambda>_.
          ok (Some product_summary))))))"

text \<open>One iteration, with its handler (lines 148-188).\<close>

definition iteration :: "scraper \<Rightarrow> nat \<Rightarrow> item \<Rightarrow> pydict option result" where
  "iteration self i item_locator =
    try_except (process_item self i item_locator)
      (\<lambda>e. then_do (py_print (''Item '' @ str_nat (i + 1) @ '': Error processing a product item: ''
                               @ str_error e @ ''. Skipping this item.'')) (\<lambda>_.
            ok None))"

text \<open>
  The loop of lines 144-188 from position \<open>i\<close> on; it returns what it appended to
  \<open>products_data\<close>, in order.
\<close>

fun enumerate_loop :: "scraper \<Rightarrow> nat \<Rightarrow> item list \<Rightarrow> pydict list result" where
  "enumerate_loop self i [] = ok []"
| "enumerate_loop self i (item_locator # rest) =
    (if i \<ge> 5 then
       then_do (py_print ''Limiting product detail extraction to the first 5 items for now.'') (\<lambda>_.
       ok [])
     else
       then_do (iteration self i item_locator) (\<lambda>appended.
       then_do (enumerate_loop self (Suc i) rest) (\<lambda>more.
       ok (case appended of None \<Rightarrow> more | Some product_summary \<Rightarrow> product_summary # more))))"

definition no_items_handler :: "page \<Rightarrow> error \<Rightarrow> pydict list result" where
  "no_items_handler page e =
    then_do (py_print (''Could not find product items on search results page: '' @ str_error e)) (\<lambda>_.
    then_do (screenshot page ''error_search_results_no_items.png'') (\<lambda>_.
    ok []))"

text \<open>
  The guarded wait of lines 134-139 either returns from the function (\<open>Some\<close> the list
  returned) or falls through (\<open>None\<close>).
\<close>

definition parse_search_results :: "scraper \<Rightarrow> page \<Rightarrow> pydict list result" where
  "parse_search_results self page =
    then_do (try_except
               (then_do (wait_for_selector page (selector ''product_item'')) (\<lambda>_. ok None))
               (\<lambda>e. then_do (no_items_handler page e) (\<lambda>returned. ok (Some returned)))) (\<lambda>returned.
    case returned of
      Some products_data \<Rightarrow> ok products_data
    | None \<Rightarrow>
        then_do (locator_all page (selector ''product_item'')) (\<lambda>product_elements.
        then_do (py_print (''Found '' @ str_nat (length product_elements)
                           @ '' potential product items on results page.'')) (\<lambda>_.
        enumerate_loop self 0 product_elements)))"

text \<open>
  \<^verbatim>\<open>search_by_image\<close> (lines 192-223): the steps of the guarded block up to the
  parse, the guarded block, its handler, and the whole. The \<^verbatim>\<open>async with\<close> of lines
  203-204 clicks the camera icon and, when the click did not raise, waits for the file
  chooser on leaving the block.
\<close>

definition image_search_steps :: "page \<Rightarrow> string \<Rightarrow> unit result" where
  "image_search_steps page image_path =
    then_do (goto page ''https://www.alibaba.com'') (\<lambda>_.
    then_do (close_initial_popups page) (\<lambda>_.
    let camera_icon_sel = selector ''image_search_camera_icon'' in
    then_do (py_print (''Looking for camera icon using selector: '' @ camera_icon_sel)) (\<lambda>_.
    then_do (locator_click page camera_icon_sel) (\<lambda>_.
    then_do (file_chooser_value page) (\<lambda>file_chooser.
    then_do (set_files file_chooser image_path) (\<lambda>_.
    then_do (py_print (''Image '' @ [CHR 0x27] @ image_path @ [CHR 0x27]
                       @ '' set for upload via file chooser.'')) (\<lambda>_.
    then_do (py_print ''Waiting for image search results to load (e.g., 10 seconds)...'') (\<lambda>_.
    then_do (wait_for_timeout page 10000) (\<lambda>_.
    py_print ''Assumed image search results page is loaded. Parsing results...'')))))))))"

definition image_search_handler :: "page \<Rightarrow> error \<Rightarrow> pydict list result" where
  "image_search_handler page e =
    then_do (py_print (''An error occurred during image search: '' @ str_error e)) (\<lambda>_.
    then_do (screenshot page ''error_image_search_page.png'') (\<lambda>_.
    ok []))"

definition image_search_block :: "scraper \<Rightarrow> page \<Rightarrow> string \<Rightarrow> pydict list result" where
  "image_search_block self page image_path =
    then_do (image_search_steps page image_path) (\<lambda>_. parse_search_results self page)"

definition search_by_image :: "scraper \<Rightarrow> string \<Rightarrow> pydict list result" where
  "search_by_image self image_path =
    then_do (get_new_page self) (\<lambda>page.
      try_finally
        (try_except (image_search_block self page image_path) (image_search_handler page))
        (close page))"

text \<open>\<^verbatim>\<open>search_by_text\<close> (lines 225-257).\<close>

definition text_search_steps :: "page \<Rightarrow> string \<Rightarrow> bool \<Rightarrow> unit result" where
  "text_search_steps page search_query use_smart_search =
    then_do (goto page ''https://www.alibaba.com'') (\<lambda>_.
    then_do (close_initial_popups page) (\<lambda>_.
    let search_bar_sel = selector ''text_search_bar'';
        search_button_sel = selector ''text_search_button'' in
    then_do (py_print (''Typing '' @ [CHR 0x27] @ search_query @ [CHR 0x27] @ '' into search bar (''
                       @ [CHR 0x27] @ search_bar_sel @ [CHR 0x27] @ '')...'')) (\<lambda>_.
    then_do (locator_fill page search_bar_sel search_query) (\<lambda>_.
    then_do (py_print (''Clicking search button ('' @ [CHR 0x27] @ search_button_sel @ [CHR 0x27]
                       @ '')...'')) (\<lambda>_.
    then_do (locator_click page search_button_sel) (\<lambda>_.
    then_do (py_print ''Waiting for text search results to load (e.g., 5 seconds)...'') (\<lambda>_.
    then_do (wait_for_timeout page 5000) (\<lambda>_.
    then_do (if use_smart_search then
               py_print (''Note: 'use_smart_search' is a conceptual flag. Actual implementation would require ''
                 @ ''identifying and interacting with Alibaba's smart search feature if it exists and is distinct.'')
             else ok ()) (\<lambda>_.
    py_print ''Assumed text search results page is loaded. Parsing results...'')))))))))"

definition text_search_handler :: "page \<Rightarrow> error \<Rightarrow> pydict list result" where
  "text_search_handler page e =
    then_do (py_print (''An error occurred during text search: '' @ str_error e)) (\<lambda>_.
    then_do (screenshot page ''error_text_search_page.png'') (\<lambda>_.
    ok []))"

definition text_search_block :: "scraper \<Rightarrow> page \<Rightarrow> string \<Rightarrow> bool \<Rightarrow> pydict list result" where
  "text_search_block self page search_query use_smart_search =
    then_do (text_search_steps page search_query use_smart_search) (\<lambda>_.
    parse_search_results self page)"

definition search_by_text :: "scraper \<Rightarrow> string \<Rightarrow> bool \<Rightarrow> pydict list result" where
  "search_by_text self search_query use_smart_search =
    then_do (get_new_page self) (\<lambda>page.
      try_finally
        (try_except (text_search_block self page search_query use_smart_search)
           (text_search_handler page))
        (close page))"

subsection \<open>Example worlds\<close>

text \<open>
  A result item whose title, company summary and link attribute are read without error, a
  page on which every call succeeds and no pop-up shows, and a scraper whose browser opens
  \<open>search_page\<close> for a search and whose only browsing context opens \<open>detail_page\<close>.
\<close>

definition ok_item :: "nat \<Rightarrow> string \<Rightarrow> string option \<Rightarrow> item" where
  "ok_item n title href =
    \<lparr>item_id = n,
     item_text_content = (\<lambda>sel. Inr (Some title)),
     item_get_attribute = (\<lambda>sel name. Inr href)\<rparr>"

definition ok_page :: "nat \<Rightarrow> string \<Rightarrow> item list \<Rightarrow> page" where
  "ok_page n html items =
    \<lparr>page_id = n,
     page_goto = (\<lambda>url. Inr ()),
     page_is_visible = (\<lambda>sel. Inr False),
     page_click = (\<lambda>sel. Inr ()),
     page_content = Inr html,
     page_screenshot = (\<lambda>path. Inr ()),
     page_close = Inr (),
     page_wait_for_selector = (\<lambda>sel. Inr ()),
     page_wait_for_timeout = (\<lambda>ms. Inr ()),
     page_locator_all = (\<lambda>sel. Inr items),
     page_locator_fill = (\<lambda>sel txt. Inr ()),
     page_locator_click = (\<lambda>sel. Inr ()),
     page_file_chooser = Inr \<lparr>fc_set_files = (\<lambda>path. Inr ())\<rparr>\<rparr>"

definition scraper_with :: "page \<Rightarrow> page \<Rightarrow> scraper" where
  "scraper_with search_page detail_page =
    \<lparr>headless = True,
     browser = Some \<lparr>browser_new_page = Inr search_page,
                     browser_contexts = (\<lambda>i. [\<lparr>ctx_new_page = Inr detail_page\<rparr>])\<rparr>\<rparr>"

text \<open>The same scraper when the driver lists no browsing context.\<close>

definition scraper_without_context :: "page \<Rightarrow> scraper" where
  "scraper_without_context search_page =
    \<lparr>headless = True,
     browser = Some \<lparr>browser_new_page = Inr search_page, browser_contexts = (\<lambda>i. [])\<rparr>\<rparr>"

text \<open>
  A page whose navigation fails and whose screenshot cannot be taken either, as on a tab
  that has crashed; closing it still succeeds.
\<close>

definition crashed_page :: "nat \<Rightarrow> page" where
  "crashed_page n =
    (ok_page n [] [])
      \<lparr>page_goto := (\<lambda>url. Inl (Error ''Page crashed'')),
       page_screenshot := (\<lambda>path. Inl (Error ''Page crashed''))\<rparr>"

text \<open>A page whose navigation times out; its screenshot is taken or not.\<close>

definition unreachable_page :: "nat \<Rightarrow> bool \<Rightarrow> page" where
  "unreachable_page n screenshot_ok =
    (ok_page n [] [])
      \<lparr>page_goto := (\<lambda>url. Inl (TimeoutError ''Timeout 30000ms exceeded.'')),
       page_screenshot := (\<lambda>path. if screenshot_ok then Inr ()
                                   else Inl (OSError ''Permission denied''))\<rparr>"

text \<open>
  A results page on which no result item ever shows; the working directory is read-only
  or not, so that no screenshot can be written or every one can.
\<close>

definition empty_results_page :: "nat \<Rightarrow> bool \<Rightarrow> page" where
  "empty_results_page n writable =
    (ok_page n [] [])
      \<lparr>page_wait_for_selector := (\<lambda>sel. Inl (TimeoutError ''Timeout 15000ms exceeded.'')),
       page_screenshot := (\<lambda>path. if writable then Inr ()
                                   else Inl (OSError ''Permission denied''))\<rparr>"

text \<open>
  The scenario of seven items: items 0 to 4 carry distinct absolute addresses, item 5 has
  no link attribute, item 6 has a root-relative link.
\<close>

definition scenario_url :: "nat \<Rightarrow> string" where
  "scenario_url n = ''https://www.alibaba.com/product/'' @ str_nat n"

definition scenario_items :: "item list" where
  "scenario_items =
    map (\<lambda>n. ok_item n (''Product '' @ str_nat n) (Some (scenario_url n))) [0, 1, 2, 3, 4]
    @ [ok_item 5 ''Product 5'' None, ok_item 6 ''Product 6'' (Some ''/product/6'')]"

definition scenario_scraper :: scraper where
  "scenario_scraper = scraper_with (ok_page 100 [] scenario_items) (ok_page 200 ''<html></html>'' [])"

text \<open>
  The records the parse is about: of the positions of a list, the ones whose guarded block
  ran to the end and appended a record, in order.
\<close>

definition processed_ok :: "scraper \<Rightarrow> nat \<times> item \<Rightarrow> pydict option" where
  "processed_ok self p =
    (case fst (process_item self (fst p) (snd p)) of
       Inl e \<Rightarrow> None
     | Inr appended \<Rightarrow> appended)"

definition records_of :: "scraper \<Rightarrow> (nat \<times> item) list \<Rightarrow> pydict list" where
  "records_of self ps = List.map_filter (processed_ok self) ps"

text \<open>The record of an item after the merge of line 178, when the detail page was read.\<close>

definition enriched_record :: "string option \<Rightarrow> string option \<Rightarrow> string \<Rightarrow> string \<Rightarrow> pydict" where
  "enriched_record title company_summary product_url html =
    [(''title'', py_text title),
     (''company_summary'', py_text company_summary),
     (''product_page_url'', PyStr product_url),
     (''full_description'', PyStr ''N/A''), (''images'', PyList []), (''html_content'', PyStr html),
     (''price_per_unit'', PyStr ''N/A''), (''company_years'', PyStr ''N/A''),
     (''verified_supplier'', PyStr ''N/A''),
     (''url'', PyStr product_url)]"

text \<open>The driver calls of a trace: its events but the prints.\<close>

fun is_print :: "event \<Rightarrow> bool" where
  "is_print (Print s) = True"
| "is_print ev = False"

definition driver_calls :: "event list \<Rightarrow> event list" where
  "driver_calls l = filter (\<lambda>ev. \<not> is_print ev) l"

text \<open>The message of line 146.\<close>

definition limit_message :: string where
  "limit_message = ''Limiting product detail extraction to the first 5 items for now.''"

definition scenario_page :: page where
  "scenario_page = ok_page 100 [] scenario_items"

definition scenario_record :: "nat \<Rightarrow> pydict" where
  "scenario_record n =
    enriched_record (Some (''Product '' @ str_nat n)) (Some (''Product '' @ str_nat n))
      (scenario_url n) ''<html></html>''"

text \<open>A result item whose title cannot be read.\<close>

definition broken_item :: "nat \<Rightarrow> item" where
  "broken_item n =
    \<lparr>item_id = n,
     item_text_content = (\<lambda>sel. Inl (TimeoutError ''Timeout 3000ms exceeded.'')),
     item_get_attribute = (\<lambda>sel name. Inr None)\<rparr>"

text \<open>A results page of three items, the middle one broken.\<close>

definition isolation_items :: "item list" where
  "isolation_items =
    [ok_item 0 ''Product 0'' (Some (scenario_url 0)), broken_item 1,
     ok_item 2 ''Product 2'' (Some (scenario_url 2))]"

definition isolation_scraper :: scraper where
  "isolation_scraper = scraper_with (ok_page 100 [] isolation_items) (ok_page 200 ''<html></html>'' [])"

text \<open>
  A results page with one well-formed item, and the scraper that reads it while the
  detail page cannot be reached; the screenshot of the detail page is taken or not.
\<close>

definition single_item_page :: page where
  "single_item_page = ok_page 1 [] [ok_item 0 ''Product 0'' (Some ''https://www.alibaba.com/product/0'')]"

definition single_item_scraper :: "bool \<Rightarrow> scraper" where
  "single_item_scraper screenshot_ok = scraper_with single_item_page (unreachable_page 2 screenshot_ok)"

section \<open>Properties\<close>

subsection \<open>The combinators\<close>

lemma after_pair [simp]: "after l (r, l') = (r, l @ l')"
  by (simp add: after_def)

lemma fst_after [simp]: "fst (after l m) = fst m"
  by (simp add: after_def)

lemma snd_after [simp]: "snd (after l m) = l @ snd m"
  by (simp add: after_def)

lemma after_Nil [simp]: "after [] m = m"
  by (simp add: after_def)

lemma after_after [simp]: "after l (after l' m) = after (l @ l') m"
  by (simp add: after_def)

lemma then_do_ok [simp]: "then_do (ok x) f = f x"
  by (simp add: then_do_def ok_def)

lemma then_do_print [simp]: "then_do (py_print s) f = after [Print s] (f ())"
  by (simp add: then_do_def py_print_def)

lemma then_do_effect_Inr [simp]: "then_do (effect ev (Inr x)) f = after [ev] (f x)"
  by (simp add: then_do_def effect_def)

lemma then_do_effect_Inl [simp]: "then_do (effect ev (Inl e)) f = (Inl e, [ev])"
  by (simp add: then_do_def effect_def)

lemma then_do_pair_Inr [simp]: "then_do (Inr x, l) f = after l (f x)"
  by (simp add: then_do_def)

lemma then_do_pair_Inl [simp]: "then_do (Inl e, l) f = (Inl e, l)"
  by (simp add: then_do_def)

lemma fst_then_do: "fst (then_do m f) = (case fst m of Inl e \<Rightarrow> Inl e | Inr x \<Rightarrow> fst (f x))"
  by (simp add: then_do_def split: sum.splits)

lemma snd_then_do: "snd (then_do m f) = (case fst m of Inl e \<Rightarrow> snd m | Inr x \<Rightarrow> snd m @ snd (f x))"
  by (simp add: then_do_def split: sum.splits)

lemma try_except_pair_Inr [simp]: "try_except (Inr x, l) h = (Inr x, l)"
  by (simp add: try_except_def)

lemma try_except_pair_Inl [simp]: "try_except (Inl e, l) h = after l (h e)"
  by (simp add: try_except_def)

lemma try_finally_pair_Inr [simp]: "try_finally m (Inr u, l) = (fst m, snd m @ l)"
  by (simp add: try_finally_def)

lemma try_finally_pair_Inl [simp]: "try_finally m (Inl e, l) = (Inl e, snd m @ l)"
  by (simp add: try_finally_def)

lemma ok_pair: "ok x = (Inr x, [])"
  by (simp add: ok_def)

lemma selector_simps:
  "selector ''popup_consent_button'' = ''button:has-text('Consent')''"
  "selector ''popup_close_button'' = ''div.dialog-close-btn''"
  "selector ''image_search_camera_icon'' = ''svg.icon-camera''"
  "selector ''text_search_bar'' = ''input.search-bar-input''"
  "selector ''text_search_button'' = ''button.search-bar-button''"
  "selector ''product_item'' = ''div.product-item-selector''"
  "selector ''product_title'' = ''h2.title-selector''"
  "selector ''product_company_summary'' = ''div.company-summary-selector''"
  "selector ''product_link'' = ''a.product-link-selector''"
  by (simp_all add: selector_def selectors_def)

lemma close_initial_popups_returns: "fst (close_initial_popups page) = Inr ()"
  by (cases "page_is_visible page (selector ''popup_consent_button'')";
      cases "page_is_visible page (selector ''popup_close_button'')";
      cases "page_click page (selector ''popup_consent_button'')";
      cases "page_click page (selector ''popup_close_button'')")
     (simp_all add: close_initial_popups_def Let_def is_visible_def click_def effect_def
        then_do_def try_except_def py_print_def ok_def after_def)

subsection \<open>Where the events of a run come from\<close>

lemma snd_ok [simp]: "snd (ok x) = []"
  by (simp add: ok_def)
lemma fst_ok [simp]: "fst (ok x) = Inr x"
  by (simp add: ok_def)
lemma snd_py_print [simp]: "snd (py_print s) = [Print s]"
  by (simp add: py_print_def)
lemma fst_py_print [simp]: "fst (py_print s) = Inr ()"
  by (simp add: py_print_def)
lemma snd_effect [simp]: "snd (effect ev r) = [ev]"
  by (simp add: effect_def)
lemma fst_effect [simp]: "fst (effect ev r) = r"
  by (simp add: effect_def)



lemma set_try_finally [simp]: "set (snd (try_finally m c)) = set (snd m) \<union> set (snd c)"
  by (auto simp: try_finally_def split: sum.splits)






subsection \<open>What one iteration appends\<close>



lemma merge_html:
  "dict_update (product_summary_of t c u) (AList.update ''html_content'' (PyStr html) (initial_details u))
   = enriched_record t c u html"
  by (simp add: dict_update_def product_summary_of_def initial_details_def enriched_record_def)






lemmas run_defs =
  process_item_def fetch_full_details_def extract_product_details_from_product_page_def
  extract_details_body_def extract_details_handler_def close_initial_popups_def
  iteration_def parse_search_results_def no_items_handler_def
  text_search_steps_def text_search_block_def text_search_handler_def search_by_text_def
  image_search_steps_def image_search_block_def image_search_handler_def search_by_image_def
  get_new_page_def normalize_url_def startswith_def last_segment_def error_product_page_path_def
  product_summary_of_def initial_details_def dict_update_def
  text_content_def get_attribute_def goto_def content_def close_def is_visible_def click_def
  screenshot_def wait_for_selector_def wait_for_timeout_def locator_all_def locator_fill_def
  locator_click_def file_chooser_value_def set_files_def
  effect_def py_print_def ok_def raise_def Let_def selector_simps

lemmas world_defs =
  scraper_with_def scraper_without_context_def ok_page_def ok_item_def crashed_page_def
  unreachable_page_def empty_results_page_def





subsection \<open>The loop over the result items\<close>

lemma iteration_fst: "fst (iteration self i it) = Inr (processed_ok self (i, it))"
  by (cases "fst (process_item self i it)")
     (simp_all add: iteration_def processed_ok_def try_except_def)

lemma iteration_skip_logged:
  assumes "fst (process_item self i it) = Inl e"
  shows "Print (''Item '' @ str_nat (i + 1) @ '': Error processing a product item: ''
                @ str_error e @ ''. Skipping this item.'') \<in> set (snd (iteration self i it))"
  using assms by (simp add: iteration_def try_except_def)

lemma enumerate_loop_fst:
  "fst (enumerate_loop self i items) = Inr (records_of self (take (5 - i) (List.enumerate i items)))"
proof (induction items arbitrary: i)
  case Nil
  show ?case by (simp add: records_of_def List.map_filter_simps)
next
  case (Cons it rest)
  show ?case
  proof (cases "5 \<le> i")
    case True
    then show ?thesis by (simp add: records_of_def List.map_filter_simps)
  next
    case False
    then have split: "5 - i = Suc (5 - Suc i)" by simp
    show ?thesis
      using False Cons.IH [of "Suc i"]
      by (simp add: fst_then_do iteration_fst records_of_def List.map_filter_simps split
          split: option.splits del: One_nat_def)
  qed
qed

lemma enumerate_loop_snd:
  "snd (enumerate_loop self i items)
   = concat (map (\<lambda>(j, it). snd (iteration self j it)) (take (5 - i) (List.enumerate i items)))
     @ (if 5 - i < length items then [Print limit_message] else [])"
proof (induction items arbitrary: i)
  case Nil
  show ?case by simp
next
  case (Cons it rest)
  show ?case
  proof (cases "5 \<le> i")
    case True
    then show ?thesis by (simp add: limit_message_def)
  next
    case False
    then have split: "5 - i = Suc (5 - Suc i)" by simp
    have less: "(5 - i < Suc (length rest)) = (5 - Suc i < length rest)"
      using False by auto
    show ?thesis
      using False Cons.IH [of "Suc i"]
      by (simp add: snd_then_do fst_then_do iteration_fst enumerate_loop_fst split less
          del: One_nat_def)
  qed
qed

lemma parse_search_results_found:
  assumes "page_wait_for_selector page (selector ''product_item'') = Inr ()"
    and "page_locator_all page (selector ''product_item'') = Inr items"
  shows "parse_search_results self page =
         after [WaitForSelector (page_id page) (selector ''product_item''),
                LocatorAll (page_id page) (selector ''product_item''),
                Print (''Found '' @ str_nat (length items) @ '' potential product items on results page.'')]
           (enumerate_loop self 0 items)"
  using assms
  by (simp add: parse_search_results_def wait_for_selector_def locator_all_def effect_def ok_pair)

lemma take_enumerate: "take n (List.enumerate i xs) = List.enumerate i (take n xs)"
  by (simp add: enumerate_eq_zip take_zip min_def)

lemma records_of_append: "records_of self (xs @ ys) = records_of self xs @ records_of self ys"
  by (simp add: records_of_def List.map_filter_def)

lemma records_of_failed: "processed_ok self p = None \<Longrightarrow> records_of self (p # ps) = records_of self ps"
  by (simp add: records_of_def List.map_filter_simps)

lemma records_of_all:
  "\<forall>p \<in> set ps. processed_ok self p = Some (g p) \<Longrightarrow> records_of self ps = map g ps"
  by (induction ps) (simp_all add: records_of_def List.map_filter_simps)

lemma records_of_first:
  assumes "n \<le> length items"
    and "\<forall>i<n. processed_ok self (i, items ! i) = Some (r i)"
  shows "records_of self (List.enumerate 0 (take n items)) = map r [0..<n]"
proof -
  have "\<forall>p \<in> set (List.enumerate 0 (take n items)). processed_ok self p = Some (r (fst p))"
  proof
    fix p assume "p \<in> set (List.enumerate 0 (take n items))"
    then have "fst p < n" and "snd p = items ! fst p"
      using assms(1) by (auto simp: in_set_enumerate_eq)
    then show "processed_ok self p = Some (r (fst p))"
      using assms(2) by (metis prod.collapse)
  qed
  then have "records_of self (List.enumerate 0 (take n items))
             = map (\<lambda>p. r (fst p)) (List.enumerate 0 (take n items))"
    by (rule records_of_all)
  also have "\<dots> = map r (map fst (List.enumerate 0 (take n items)))"
    by (simp only: map_map comp_def)
  also have "map fst (List.enumerate 0 (take n items)) = [0..<n]"
    using assms(1) by (simp add: min_def)
  finally show ?thesis .
qed

lemma process_item_well_formed:
  assumes "item_text_content it (selector ''product_title'') = Inr title"
    and "item_text_content it (selector ''product_company_summary'') = Inr company"
    and "item_get_attribute it (selector ''product_link'') ''href'' = Inr (Some u)"
    and "startswith u ''http''"
    and "browser self = Some b"
    and "browser_contexts b i = ctx # others"
    and "ctx_new_page ctx = Inr p"
    and "page_goto p u = Inr ()"
    and "page_content p = Inr html"
    and "page_close p = Inr ()"
  shows "fst (process_item self i it) = Inr (Some (enriched_record title company u html))"
proof -
  from assms(4) have url: "normalize_url (Some u) = ValidUrl u"
    by (auto simp: normalize_url_def startswith_def Let_def prefix_def)
  have body: "fst (extract_details_body u p (initial_details u))
              = Inr (AList.update ''html_content'' (PyStr html) (initial_details u))"
    using assms(8,9)
    by (simp add: extract_details_body_def fst_then_do goto_def content_def
        close_initial_popups_returns)
  have "fst (extract_product_details_from_product_page u ctx)
        = Inr (AList.update ''html_content'' (PyStr html) (initial_details u))"
    using assms(7,10) body
    by (simp add: extract_product_details_from_product_page_def try_except_def try_finally_def
        close_def Let_def)
  then have "fst (fetch_full_details self i u (product_summary_of title company u))
             = Inr (enriched_record title company u html)"
    using assms(5,6) by (simp add: fetch_full_details_def fst_then_do merge_html)
  then show ?thesis
    using assms(1,2,3) url
    by (simp add: process_item_def fst_then_do text_content_def get_attribute_def)
qed

lemma parse_search_results_records:
  assumes "page_wait_for_selector page (selector ''product_item'') = Inr ()"
    and "page_locator_all page (selector ''product_item'') = Inr items"
  shows "fst (parse_search_results self page) = Inr (records_of self (List.enumerate 0 (take 5 items)))"
  by (simp add: parse_search_results_found [OF assms] enumerate_loop_fst take_enumerate)

lemma parse_search_results_events:
  assumes "page_wait_for_selector page (selector ''product_item'') = Inr ()"
    and "page_locator_all page (selector ''product_item'') = Inr items"
  shows "snd (parse_search_results self page)
         = [WaitForSelector (page_id page) (selector ''product_item''),
            LocatorAll (page_id page) (selector ''product_item''),
            Print (''Found '' @ str_nat (length items) @ '' potential product items on results page.'')]
           @ concat (map (\<lambda>(i, it). snd (iteration self i it)) (List.enumerate 0 (take 5 items)))
           @ (if 5 < length items then [Print limit_message] else [])"
  by (simp add: parse_search_results_found [OF assms] enumerate_loop_snd take_enumerate)

text \<open>
  C4. When the guarded block of item \<open>k\<close> raises, the parse still returns a list: the
  records of the items before \<open>k\<close> followed by the records of the items after \<open>k\<close> (of
  the positions the loop reaches), each in the order of the page; the failure is printed.
\<close>

theorem item_failure_isolated:
  assumes "page_wait_for_selector page (selector ''product_item'') = Inr ()"
    and "page_locator_all page (selector ''product_item'') = Inr items"
    and "k < length items" and "k < 5"
    and "fst (process_item self k (items ! k)) = Inl e"
  shows "fst (parse_search_results self page)
         = Inr (records_of self (List.enumerate 0 (take k items))
                @ records_of self (List.enumerate (Suc k) (drop (Suc k) (take 5 items))))
       \<and> Print (''Item '' @ str_nat (k + 1) @ '': Error processing a product item: ''
                @ str_error e @ ''. Skipping this item.'')
           \<in> set (snd (parse_search_results self page))"
proof -
  let ?xs = "take 5 items"
  have k: "k < length ?xs" using assms(3,4) by simp
  have nth: "?xs ! k = items ! k" using assms(4) by simp
  have parts: "?xs = take k items @ (items ! k) # drop (Suc k) ?xs"
    using id_take_nth_drop [OF k] assms(4) by (simp add: nth min_def)
  have "List.enumerate 0 ?xs
        = List.enumerate 0 (take k items) @ (k, items ! k) # List.enumerate (Suc k) (drop (Suc k) ?xs)"
    using assms(3) by (subst parts) (simp add: enumerate_append_eq min_def)
  moreover have "processed_ok self (k, items ! k) = None"
    using assms(5) by (simp add: processed_ok_def)
  ultimately have "records_of self (List.enumerate 0 ?xs)
        = records_of self (List.enumerate 0 (take k items))
          @ records_of self (List.enumerate (Suc k) (drop (Suc k) ?xs))"
    by (simp add: records_of_append records_of_failed)
  then have result: "fst (parse_search_results self page)
         = Inr (records_of self (List.enumerate 0 (take k items))
                @ records_of self (List.enumerate (Suc k) (drop (Suc k) (take 5 items))))"
    by (simp add: parse_search_results_records [OF assms(1,2)])
  have "(k, items ! k) \<in> set (List.enumerate 0 ?xs)"
    using k nth by (simp add: in_set_enumerate_eq)
  then have "set (snd (iteration self k (items ! k))) \<subseteq> set (snd (parse_search_results self page))"
    by (force simp: parse_search_results_events [OF assms(1,2)])
  with iteration_skip_logged [OF assms(5)] result show ?thesis by blast
qed

lemma str_nat_small:
  "str_nat 0 = ''0''" "str_nat 1 = ''1''" "str_nat 2 = ''2''" "str_nat 3 = ''3''"
  "str_nat 4 = ''4''" "str_nat 5 = ''5''" "str_nat 6 = ''6''" "str_nat 7 = ''7''"
  by (simp_all add: str_nat.simps digit_char_def)

lemmas scenario_defs =
  str_nat_small
  scenario_scraper_def scenario_page_def scenario_items_def scenario_url_def scenario_record_def
  isolation_items_def isolation_scraper_def broken_item_def enriched_record_def

theorem item_failure_isolated_witness:
  "1 < length isolation_items
 \<and> fst (process_item isolation_scraper 1 (isolation_items ! 1))
     = Inl (TimeoutError ''Timeout 3000ms exceeded.'')
 \<and> fst (parse_search_results isolation_scraper (ok_page 100 [] isolation_items))
     = Inr [scenario_record 0, scenario_record 2]
 \<and> Print (''Item '' @ str_nat (1 + 1) @ '': Error processing a product item: ''
          @ ''Timeout 3000ms exceeded.'' @ ''. Skipping this item.'')
     \<in> set (snd (parse_search_results isolation_scraper (ok_page 100 [] isolation_items)))"
proof -
  let ?page = "ok_page 100 [] isolation_items"
  have wait: "page_wait_for_selector ?page (selector ''product_item'') = Inr ()"
    by (simp add: ok_page_def)
  have found: "page_locator_all ?page (selector ''product_item'') = Inr isolation_items"
    by (simp add: ok_page_def)
  have len: "1 < length isolation_items" "(1::nat) < 5"
    by (simp_all add: isolation_items_def)
  have raised: "fst (process_item isolation_scraper 1 (isolation_items ! 1))
                = Inl (TimeoutError ''Timeout 3000ms exceeded.'')"
    by (simp add: run_defs world_defs scenario_defs)
  have first: "records_of isolation_scraper (List.enumerate 0 (take 1 isolation_items))
               = [scenario_record 0]"
    by (simp add: records_of_def List.map_filter_simps processed_ok_def
        run_defs world_defs scenario_defs)
  have rest: "records_of isolation_scraper
                (List.enumerate (Suc 1) (drop (Suc 1) (take 5 isolation_items)))
              = [scenario_record 2]"
    by (simp add: records_of_def List.map_filter_simps processed_ok_def
        run_defs world_defs scenario_defs)
  from item_failure_isolated [OF wait found len raised] first rest raised len(1)
  show ?thesis by simp
qed

text \<open>
  C6. On a results page of more than five items the loop runs the iterations of the first
  five, in the order of the page, and stops: the parse returns the records these five
  appended, its trace is the wait, the enumeration and the count followed by the traces of
  these five iterations and the message of the limit, and whatever follows the first five
  items has no influence on what the loop returns or does.
\<close>

theorem result_cap:
  assumes "page_wait_for_selector page (selector ''product_item'') = Inr ()"
    and "page_locator_all page (selector ''product_item'') = Inr items"
    and "5 < length items"
  shows "fst (parse_search_results self page) = Inr (records_of self (List.enumerate 0 (take 5 items)))
       \<and> snd (parse_search_results self page)
         = [WaitForSelector (page_id page) (selector ''product_item''),
            LocatorAll (page_id page) (selector ''product_item''),
            Print (''Found '' @ str_nat (length items) @ '' potential product items on results page.'')]
           @ concat (map (\<lambda>(i, it). snd (iteration self i it)) (List.enumerate 0 (take 5 items)))
           @ [Print limit_message]
       \<and> (\<forall>others. 5 < length others \<and> take 5 others = take 5 items \<longrightarrow>
            enumerate_loop self 0 others = enumerate_loop self 0 items)"
proof -
  have same: "enumerate_loop self 0 others = enumerate_loop self 0 items"
    if "5 < length others \<and> take 5 others = take 5 items" for others
  proof (rule prod_eqI)
    show "fst (enumerate_loop self 0 others) = fst (enumerate_loop self 0 items)"
      using that by (simp add: enumerate_loop_fst take_enumerate)
    show "snd (enumerate_loop self 0 others) = snd (enumerate_loop self 0 items)"
      using that assms(3) by (simp add: enumerate_loop_snd take_enumerate)
  qed
  have records: "fst (parse_search_results self page)
                 = Inr (records_of self (List.enumerate 0 (take 5 items)))"
    by (rule parse_search_results_records [OF assms(1,2)])
  have events: "snd (parse_search_results self page)
         = [WaitForSelector (page_id page) (selector ''product_item''),
            LocatorAll (page_id page) (selector ''product_item''),
            Print (''Found '' @ str_nat (length items) @ '' potential product items on results page.'')]
           @ concat (map (\<lambda>(i, it). snd (iteration self i it)) (List.enumerate 0 (take 5 items)))
           @ [Print limit_message]"
    using assms(3) by (simp add: parse_search_results_events [OF assms(1,2)])
  from records events same show ?thesis
    by (intro conjI allI impI)
qed

theorem result_cap_witness:
  "5 < length scenario_items
 \<and> fst (parse_search_results scenario_scraper scenario_page)
     = Inr (records_of scenario_scraper (List.enumerate 0 (take 5 scenario_items)))
 \<and> records_of scenario_scraper (List.enumerate 0 (take 5 scenario_items))
     = [scenario_record 0, scenario_record 1, scenario_record 2, scenario_record 3, scenario_record 4]
 \<and> enumerate_loop scenario_scraper 0 (take 5 scenario_items @ [broken_item 7, broken_item 8])
     = enumerate_loop scenario_scraper 0 scenario_items"
proof -
  have wait: "page_wait_for_selector scenario_page (selector ''product_item'') = Inr ()"
    by (simp add: scenario_page_def ok_page_def)
  have found: "page_locator_all scenario_page (selector ''product_item'') = Inr scenario_items"
    by (simp add: scenario_page_def ok_page_def)
  have len: "5 < length scenario_items"
    by (simp add: scenario_items_def)
  have others: "5 < length (take 5 scenario_items @ [broken_item 7, broken_item 8])
      \<and> take 5 (take 5 scenario_items @ [broken_item 7, broken_item 8]) = take 5 scenario_items"
    by (simp add: scenario_items_def)
  have records: "records_of scenario_scraper (List.enumerate 0 (take 5 scenario_items))
     = [scenario_record 0, scenario_record 1, scenario_record 2, scenario_record 3, scenario_record 4]"
    by (simp add: records_of_def List.map_filter_simps processed_ok_def
        run_defs world_defs scenario_defs)
  note cap = result_cap [OF wait found len, of scenario_scraper]
  from cap have returned: "fst (parse_search_results scenario_scraper scenario_page)
     = Inr (records_of scenario_scraper (List.enumerate 0 (take 5 scenario_items)))"
    by (rule conjunct1)
  from cap [THEN conjunct2, THEN conjunct2, rule_format, OF others]
  have ignored: "enumerate_loop scenario_scraper 0 (take 5 scenario_items @ [broken_item 7, broken_item 8])
     = enumerate_loop scenario_scraper 0 scenario_items" .
  from len returned records ignored show ?thesis
    by (intro conjI)
qed

text \<open>
  C3 (as amended). On a results page of seven items of which items 0 to 4 are well formed
  (title, company summary and an absolute link are read, and the detail page opens, loads
  and closes), item 5 has no link attribute and item 6 has a root-relative link, the parse
  returns the five enriched records of items 0 to 4, in that order, and nothing else: the
  loop stops at the sixth item, so neither item 5 nor item 6 is processed.
\<close>

theorem seven_items_scenario:
  assumes "page_wait_for_selector page (selector ''product_item'') = Inr ()"
    and "page_locator_all page (selector ''product_item'') = Inr items"
    and "length items = 7"
    and "browser self = Some b"
    and "\<forall>i<5. item_text_content (items ! i) (selector ''product_title'') = Inr (title i)
            \<and> item_text_content (items ! i) (selector ''product_company_summary'') = Inr (company i)
            \<and> item_get_attribute (items ! i) (selector ''product_link'') ''href'' = Inr (Some (url i))
            \<and> (startswith (url i) ''http://'' \<or> startswith (url i) ''https://'')
            \<and> (\<exists>ctx others. browser_contexts b i = ctx # others \<and> ctx_new_page ctx = Inr (detail i))
            \<and> page_goto (detail i) (url i) = Inr ()
            \<and> page_content (detail i) = Inr (html i)
            \<and> page_close (detail i) = Inr ()"
    and "item_get_attribute (items ! 5) (selector ''product_link'') ''href'' = Inr None"
    and "item_get_attribute (items ! 6) (selector ''product_link'') ''href'' = Inr (Some link)"
    and "startswith link ''/''" and "\<not> startswith link ''//''"
  shows "fst (parse_search_results self page)
         = Inr (map (\<lambda>i. enriched_record (title i) (company i) (url i) (html i)) [0..<5])
       \<and> snd (parse_search_results self page)
         = [WaitForSelector (page_id page) (selector ''product_item''),
            LocatorAll (page_id page) (selector ''product_item''),
            Print (''Found '' @ str_nat 7 @ '' potential product items on results page.'')]
           @ concat (map (\<lambda>(i, it). snd (iteration self i it)) (List.enumerate 0 (take 5 items)))
           @ [Print limit_message]"
proof -
  have "processed_ok self (i, items ! i)
        = Some (enriched_record (title i) (company i) (url i) (html i))" if "i < 5" for i
  proof -
    from assms(5) that obtain ctx others where
      item: "item_text_content (items ! i) (selector ''product_title'') = Inr (title i)"
        "item_text_content (items ! i) (selector ''product_company_summary'') = Inr (company i)"
        "item_get_attribute (items ! i) (selector ''product_link'') ''href'' = Inr (Some (url i))"
      and absolute: "startswith (url i) ''http://'' \<or> startswith (url i) ''https://''"
      and detail: "browser_contexts b i = ctx # others" "ctx_new_page ctx = Inr (detail i)"
        "page_goto (detail i) (url i) = Inr ()" "page_content (detail i) = Inr (html i)"
        "page_close (detail i) = Inr ()"
      by blast
    from absolute have "startswith (url i) ''http''"
      by (auto simp: startswith_def prefix_def)
    from process_item_well_formed [OF item this assms(4) detail]
    show ?thesis by (simp add: processed_ok_def)
  qed
  then have "records_of self (List.enumerate 0 (take 5 items))
             = map (\<lambda>i. enriched_record (title i) (company i) (url i) (html i)) [0..<5]"
    using assms(3) by (intro records_of_first) simp_all
  then show ?thesis
    using assms(3)
    by (simp add: parse_search_results_records [OF assms(1,2)]
        parse_search_results_events [OF assms(1,2)])
qed

theorem seven_items_scenario_witness:
  "length scenario_items = 7
 \<and> fst (parse_search_results scenario_scraper scenario_page)
     = Inr (map (\<lambda>i. enriched_record (Some (''Product '' @ str_nat i)) (Some (''Product '' @ str_nat i))
                       (scenario_url i) ''<html></html>'') [0..<5])"
proof -
  let ?b = "\<lparr>browser_new_page = Inr (ok_page 100 [] scenario_items),
             browser_contexts = (\<lambda>i. [\<lparr>ctx_new_page = Inr (ok_page 200 ''<html></html>'' [])\<rparr>])\<rparr>"
  have wait: "page_wait_for_selector scenario_page (selector ''product_item'') = Inr ()"
    by (simp add: scenario_page_def ok_page_def)
  have found: "page_locator_all scenario_page (selector ''product_item'') = Inr scenario_items"
    by (simp add: scenario_page_def ok_page_def)
  have len: "length scenario_items = 7"
    by (simp add: scenario_items_def)
  have b: "browser scenario_scraper = Some ?b"
    by (simp add: scenario_scraper_def scraper_with_def)
  have five: "\<forall>i<5. item_text_content (scenario_items ! i) (selector ''product_title'')
                = Inr (Some (''Product '' @ str_nat i))
            \<and> item_text_content (scenario_items ! i) (selector ''product_company_summary'')
                = Inr (Some (''Product '' @ str_nat i))
            \<and> item_get_attribute (scenario_items ! i) (selector ''product_link'') ''href''
                = Inr (Some (scenario_url i))
            \<and> (startswith (scenario_url i) ''http://'' \<or> startswith (scenario_url i) ''https://'')
            \<and> (\<exists>ctx others. browser_contexts ?b i = ctx # others
                  \<and> ctx_new_page ctx = Inr (ok_page 200 ''<html></html>'' []))
            \<and> page_goto (ok_page 200 ''<html></html>'' []) (scenario_url i) = Inr ()
            \<and> page_content (ok_page 200 ''<html></html>'' []) = Inr ''<html></html>''
            \<and> page_close (ok_page 200 ''<html></html>'' []) = Inr ()"
  proof (intro allI impI)
    fix i :: nat assume "i < 5"
    then consider "i = 0" | "i = 1" | "i = 2" | "i = 3" | "i = 4" by linarith
    then show "item_text_content (scenario_items ! i) (selector ''product_title'')
                = Inr (Some (''Product '' @ str_nat i))
            \<and> item_text_content (scenario_items ! i) (selector ''product_company_summary'')
                = Inr (Some (''Product '' @ str_nat i))
            \<and> item_get_attribute (scenario_items ! i) (selector ''product_link'') ''href''
                = Inr (Some (scenario_url i))
            \<and> (startswith (scenario_url i) ''http://'' \<or> startswith (scenario_url i) ''https://'')
            \<and> (\<exists>ctx others. browser_contexts ?b i = ctx # others
                  \<and> ctx_new_page ctx = Inr (ok_page 200 ''<html></html>'' []))
            \<and> page_goto (ok_page 200 ''<html></html>'' []) (scenario_url i) = Inr ()
            \<and> page_content (ok_page 200 ''<html></html>'' []) = Inr ''<html></html>''
            \<and> page_close (ok_page 200 ''<html></html>'' []) = Inr ()"
      by cases (simp_all add: scenario_items_def scenario_url_def ok_item_def ok_page_def startswith_def)
  qed
  have missing: "item_get_attribute (scenario_items ! 5) (selector ''product_link'') ''href'' = Inr None"
    by (simp add: scenario_items_def ok_item_def)
  have relative: "item_get_attribute (scenario_items ! 6) (selector ''product_link'') ''href''
                  = Inr (Some ''/product/6'')"
    "startswith ''/product/6'' ''/''" "\<not> startswith ''/product/6'' ''//''"
    by (simp_all add: scenario_items_def ok_item_def startswith_def)
  from seven_items_scenario [OF wait found len b five missing relative, THEN conjunct1] len
  show ?thesis by (intro conjI)
qed

text \<open>
  The claim as stated fails: on the scenario's page the parse returns five records, those
  of items 0 to 4; the record of item 6 is not among them.
\<close>

theorem seven_items_counterexample:
  "length scenario_items = 7
 \<and> fst (parse_search_results scenario_scraper scenario_page)
     = Inr [scenario_record 0, scenario_record 1, scenario_record 2, scenario_record 3, scenario_record 4]
 \<and> length [scenario_record 0, scenario_record 1, scenario_record 2, scenario_record 3, scenario_record 4]
     = 5"
  by (simp add: run_defs world_defs scenario_defs)

subsection \<open>The detail extractor\<close>

lemma extract_details_body_fst:
  "fst (extract_details_body url p d)
   = (case page_goto p url of
        Inl e \<Rightarrow> Inl e
      | Inr u \<Rightarrow> (case page_content p of
                    Inl e \<Rightarrow> Inl e
                  | Inr html \<Rightarrow> Inr (AList.update ''html_content'' (PyStr html) d)))"
  by (simp add: extract_details_body_def fst_then_do goto_def content_def
      close_initial_popups_returns split: sum.splits)

lemma extract_no_page:
  assumes "ctx_new_page ctx = Inl e"
  shows "extract_product_details_from_product_page url ctx
         = (Inr (initial_details url),
            [ContextNewPage,
             Print (''Error extracting full details for '' @ url @ '': '' @ str_error e)])"
  using assms
  by (simp add: extract_product_details_from_product_page_def extract_details_handler_def
      Let_def ok_pair)

lemma extract_closes:
  assumes "ctx_new_page ctx = Inr p"
  shows "\<exists>l. snd (extract_product_details_from_product_page url ctx) = l @ [Close (page_id p)]"
  using assms
  by (cases "page_close p")
     (simp_all add: extract_product_details_from_product_page_def Let_def close_def effect_def)

lemma extract_failed_events:
  assumes "ctx_new_page ctx = Inr p"
    and "fst (extract_details_body url p (initial_details url)) = Inl e"
  shows "Print (''Error extracting full details for '' @ url @ '': '' @ str_error e)
           \<in> set (snd (extract_product_details_from_product_page url ctx))
       \<and> Screenshot (page_id p) (error_product_page_path url)
           \<in> set (snd (extract_product_details_from_product_page url ctx))"
  using assms
  by (cases "page_screenshot p (error_product_page_path url)")
     (simp_all add: extract_product_details_from_product_page_def extract_details_handler_def
        Let_def try_except_def screenshot_def)

lemma extract_failed_fst:
  assumes "ctx_new_page ctx = Inr p"
    and "fst (extract_details_body url p (initial_details url)) = Inl e"
  shows "fst (extract_product_details_from_product_page url ctx)
         = (case page_close p of
              Inl e'' \<Rightarrow> Inl e''
            | Inr u \<Rightarrow> (case page_screenshot p (error_product_page_path url) of
                          Inl e' \<Rightarrow> Inl e'
                        | Inr u \<Rightarrow> Inr (initial_details url)))"
  using assms
  by (cases "page_screenshot p (error_product_page_path url)"; cases "page_close p")
     (simp_all add: extract_product_details_from_product_page_def extract_details_handler_def
        Let_def try_except_def try_finally_def screenshot_def close_def)

text \<open>
  C7 (as amended). When the detail extractor has opened its page and navigation or the
  reading of the markup raises, it prints the error and attempts a screenshot named after
  what follows the last slash of the address; provided neither that screenshot nor the
  closing of the page raises, it returns the initial record (the address under \<open>url\<close>,
  \<open>N/A\<close> for every text field, the empty list for \<open>images\<close>) instead of propagating the
  failure. When the page cannot be opened it prints the error, attempts no screenshot and
  returns the same initial record. Whenever the page was opened, closing it is the last
  thing the extractor does, on every exit.
\<close>

theorem extract_failure_contained:
  "(ctx_new_page ctx = Inr p \<longrightarrow>
      (\<exists>l. snd (extract_product_details_from_product_page url ctx) = l @ [Close (page_id p)]))
 \<and> (ctx_new_page ctx = Inr p
      \<and> (page_goto p url = Inl e \<or> page_goto p url = Inr () \<and> page_content p = Inl e) \<longrightarrow>
        Print (''Error extracting full details for '' @ url @ '': '' @ str_error e)
          \<in> set (snd (extract_product_details_from_product_page url ctx))
      \<and> Screenshot (page_id p) (''error_product_page_'' @ last_segment url @ ''.png'')
          \<in> set (snd (extract_product_details_from_product_page url ctx))
      \<and> (page_screenshot p (''error_product_page_'' @ last_segment url @ ''.png'') = Inr ()
           \<and> page_close p = Inr () \<longrightarrow>
          fst (extract_product_details_from_product_page url ctx)
          = Inr [(''url'', PyStr url),
                 (''full_description'', PyStr ''N/A''), (''images'', PyList []),
                 (''html_content'', PyStr ''N/A''), (''price_per_unit'', PyStr ''N/A''),
                 (''company_years'', PyStr ''N/A''), (''verified_supplier'', PyStr ''N/A'')]))
 \<and> (ctx_new_page ctx = Inl e \<longrightarrow>
      extract_product_details_from_product_page url ctx
      = (Inr [(''url'', PyStr url),
              (''full_description'', PyStr ''N/A''), (''images'', PyList []),
              (''html_content'', PyStr ''N/A''), (''price_per_unit'', PyStr ''N/A''),
              (''company_years'', PyStr ''N/A''), (''verified_supplier'', PyStr ''N/A'')],
         [ContextNewPage,
          Print (''Error extracting full details for '' @ url @ '': '' @ str_error e)]))"
proof (intro conjI impI)
  assume "ctx_new_page ctx = Inr p"
  then show "\<exists>l. snd (extract_product_details_from_product_page url ctx) = l @ [Close (page_id p)]"
    by (rule extract_closes)
next
  assume a: "ctx_new_page ctx = Inr p
      \<and> (page_goto p url = Inl e \<or> page_goto p url = Inr () \<and> page_content p = Inl e)"
  then have body: "fst (extract_details_body url p (initial_details url)) = Inl e"
    by (auto simp: extract_details_body_fst)
  from a extract_failed_events [OF _ body]
  show "Print (''Error extracting full details for '' @ url @ '': '' @ str_error e)
          \<in> set (snd (extract_product_details_from_product_page url ctx))"
    and "Screenshot (page_id p) (''error_product_page_'' @ last_segment url @ ''.png'')
          \<in> set (snd (extract_product_details_from_product_page url ctx))"
    by (simp_all add: error_product_page_path_def)
  assume "page_screenshot p (''error_product_page_'' @ last_segment url @ ''.png'') = Inr ()
           \<and> page_close p = Inr ()"
  with a extract_failed_fst [OF _ body]
  show "fst (extract_product_details_from_product_page url ctx)
          = Inr [(''url'', PyStr url),
                 (''full_description'', PyStr ''N/A''), (''images'', PyList []),
                 (''html_content'', PyStr ''N/A''), (''price_per_unit'', PyStr ''N/A''),
                 (''company_years'', PyStr ''N/A''), (''verified_supplier'', PyStr ''N/A'')]"
    by (simp add: error_product_page_path_def initial_details_def)
next
  assume "ctx_new_page ctx = Inl e"
  from extract_no_page [OF this]
  show "extract_product_details_from_product_page url ctx
      = (Inr [(''url'', PyStr url),
              (''full_description'', PyStr ''N/A''), (''images'', PyList []),
              (''html_content'', PyStr ''N/A''), (''price_per_unit'', PyStr ''N/A''),
              (''company_years'', PyStr ''N/A''), (''verified_supplier'', PyStr ''N/A'')],
         [ContextNewPage,
          Print (''Error extracting full details for '' @ url @ '': '' @ str_error e)])"
    by (simp add: initial_details_def)
qed

theorem extract_failure_contained_witness:
  "page_goto (unreachable_page 2 True) ''https://www.alibaba.com/product/0''
     = Inl (TimeoutError ''Timeout 30000ms exceeded.'')
 \<and> (\<exists>l. snd (extract_product_details_from_product_page ''https://www.alibaba.com/product/0''
               \<lparr>ctx_new_page = Inr (unreachable_page 2 True)\<rparr>) = l @ [Close 2])
 \<and> Screenshot 2 ''error_product_page_0.png''
     \<in> set (snd (extract_product_details_from_product_page ''https://www.alibaba.com/product/0''
                   \<lparr>ctx_new_page = Inr (unreachable_page 2 True)\<rparr>))
 \<and> fst (extract_product_details_from_product_page ''https://www.alibaba.com/product/0''
          \<lparr>ctx_new_page = Inr (unreachable_page 2 True)\<rparr>)
     = Inr [(''url'', PyStr ''https://www.alibaba.com/product/0''),
            (''full_description'', PyStr ''N/A''), (''images'', PyList []),
            (''html_content'', PyStr ''N/A''), (''price_per_unit'', PyStr ''N/A''),
            (''company_years'', PyStr ''N/A''), (''verified_supplier'', PyStr ''N/A'')]
 \<and> fst (extract_product_details_from_product_page ''https://www.alibaba.com/product/0''
          \<lparr>ctx_new_page = Inl (Error ''Browser has been closed'')\<rparr>)
     = Inr [(''url'', PyStr ''https://www.alibaba.com/product/0''),
            (''full_description'', PyStr ''N/A''), (''images'', PyList []),
            (''html_content'', PyStr ''N/A''), (''price_per_unit'', PyStr ''N/A''),
            (''company_years'', PyStr ''N/A''), (''verified_supplier'', PyStr ''N/A'')]"
proof -
  let ?url = "''https://www.alibaba.com/product/0''"
  let ?p = "unreachable_page 2 True"
  have opened: "ctx_new_page \<lparr>ctx_new_page = Inr ?p\<rparr> = Inr ?p"
    by simp
  have unreachable: "page_goto ?p ?url = Inl (TimeoutError ''Timeout 30000ms exceeded.'')"
    by (simp add: unreachable_page_def ok_page_def)
  have quiet: "page_screenshot ?p ''error_product_page_0.png'' = Inr () \<and> page_close ?p = Inr ()"
    by (simp add: unreachable_page_def ok_page_def)
  have id: "page_id ?p = 2"
    by (simp add: unreachable_page_def ok_page_def)
  have path: "''error_product_page_'' @ last_segment ?url @ ''.png'' = ''error_product_page_0.png''"
    by (simp add: last_segment_def)
  have closed: "ctx_new_page \<lparr>ctx_new_page = Inl (Error ''Browser has been closed'')\<rparr>
                = Inl (Error ''Browser has been closed'')"
    by simp
  note opened_case = extract_failure_contained
    [of "\<lparr>ctx_new_page = Inr ?p\<rparr>" ?p ?url "TimeoutError ''Timeout 30000ms exceeded.''"]
  note closed_case = extract_failure_contained
    [of "\<lparr>ctx_new_page = Inl (Error ''Browser has been closed'')\<rparr>" ?p ?url
        "Error ''Browser has been closed''"]
  note last = opened_case [THEN conjunct1, THEN mp, OF opened, unfolded id]
  note both = opened_case [THEN conjunct2, THEN conjunct1, THEN mp,
      OF conjI [OF opened disjI1 [OF unreachable]], unfolded id path]
  note failed = both [THEN conjunct2, THEN conjunct1]
  note returned = both [THEN conjunct2, THEN conjunct2, THEN mp, OF quiet]
  from closed_case [THEN conjunct2, THEN conjunct2, THEN mp, OF closed]
  have unopened: "fst (extract_product_details_from_product_page ?url
          \<lparr>ctx_new_page = Inl (Error ''Browser has been closed'')\<rparr>)
     = Inr [(''url'', PyStr ?url),
            (''full_description'', PyStr ''N/A''), (''images'', PyList []),
            (''html_content'', PyStr ''N/A''), (''price_per_unit'', PyStr ''N/A''),
            (''company_years'', PyStr ''N/A''), (''verified_supplier'', PyStr ''N/A'')]"
    by simp
  from unreachable last failed returned unopened show ?thesis
    by (intro conjI)
qed

text \<open>
  The claim as stated fails: when the page has crashed, navigation raises and so does the
  screenshot of the handler, and the extractor propagates that exception instead of
  returning a record.
\<close>

theorem extract_failure_counterexample:
  "fst (extract_product_details_from_product_page ''https://www.alibaba.com/product/0''
         \<lparr>ctx_new_page = Inr (crashed_page 2)\<rparr>)
   = Inl (Error ''Page crashed'')"
  by (simp add: run_defs world_defs)

subsection \<open>The handlers of the parser and of the search operations\<close>

lemma parse_search_results_no_items:
  assumes "page_wait_for_selector page (selector ''product_item'') = Inl e"
  shows "fst (parse_search_results self page)
         = (case page_screenshot page ''error_search_results_no_items.png'' of
              Inl e' \<Rightarrow> Inl e'
            | Inr u \<Rightarrow> Inr [])"
    and "snd (parse_search_results self page)
         = [WaitForSelector (page_id page) (selector ''product_item''),
            Print (''Could not find product items on search results page: '' @ str_error e),
            Screenshot (page_id page) ''error_search_results_no_items.png'']"
  using assms
  by (cases "page_screenshot page ''error_search_results_no_items.png''";
      simp add: parse_search_results_def no_items_handler_def wait_for_selector_def
        screenshot_def effect_def ok_pair)+

lemma guarded_fst:
  "fst (try_finally (try_except block h) (close page))
   = (case page_close page of
        Inl e \<Rightarrow> Inl e
      | Inr u \<Rightarrow> (case fst block of Inr rs \<Rightarrow> Inr rs | Inl e \<Rightarrow> fst (h e)))"
  by (cases "page_close page"; cases "fst block")
     (simp_all add: try_finally_def try_except_def close_def effect_def)

lemma guarded_handler_events:
  "fst block = Inl e \<Longrightarrow> set (snd (h e)) \<subseteq> set (snd (try_finally (try_except block h) c))"
  by (auto simp: try_except_def)

lemma text_search_handler_fst:
  "fst (text_search_handler page e)
   = (case page_screenshot page ''error_text_search_page.png'' of
        Inl e' \<Rightarrow> Inl e'
      | Inr u \<Rightarrow> Inr [])"
  by (cases "page_screenshot page ''error_text_search_page.png''")
     (simp_all add: text_search_handler_def screenshot_def effect_def ok_pair)

lemma image_search_handler_fst:
  "fst (image_search_handler page e)
   = (case page_screenshot page ''error_image_search_page.png'' of
        Inl e' \<Rightarrow> Inl e'
      | Inr u \<Rightarrow> Inr [])"
  by (cases "page_screenshot page ''error_image_search_page.png''")
     (simp_all add: image_search_handler_def screenshot_def effect_def ok_pair)

lemma text_search_handler_screenshot:
  "Screenshot (page_id page) ''error_text_search_page.png'' \<in> set (snd (text_search_handler page e))"
  by (cases "page_screenshot page ''error_text_search_page.png''")
     (simp_all add: text_search_handler_def screenshot_def effect_def ok_pair)

lemma image_search_handler_screenshot:
  "Screenshot (page_id page) ''error_image_search_page.png'' \<in> set (snd (image_search_handler page e))"
  by (cases "page_screenshot page ''error_image_search_page.png''")
     (simp_all add: image_search_handler_def screenshot_def effect_def ok_pair)

lemma search_by_text_fst:
  assumes "browser self = Some b" and "browser_new_page b = Inr page"
  shows "fst (search_by_text self q flag)
         = (case page_close page of
              Inl e \<Rightarrow> Inl e
            | Inr u \<Rightarrow> (case fst (text_search_block self page q flag) of
                          Inr rs \<Rightarrow> Inr rs
                        | Inl e \<Rightarrow> (case page_screenshot page ''error_text_search_page.png'' of
                                      Inl e' \<Rightarrow> Inl e'
                                    | Inr u \<Rightarrow> Inr [])))"
  using assms
  by (simp add: search_by_text_def get_new_page_def guarded_fst text_search_handler_fst
      split: sum.splits)

lemma search_by_image_fst:
  assumes "browser self = Some b" and "browser_new_page b = Inr page"
  shows "fst (search_by_image self path)
         = (case page_close page of
              Inl e \<Rightarrow> Inl e
            | Inr u \<Rightarrow> (case fst (image_search_block self page path) of
                          Inr rs \<Rightarrow> Inr rs
                        | Inl e \<Rightarrow> (case page_screenshot page ''error_image_search_page.png'' of
                                      Inl e' \<Rightarrow> Inl e'
                                    | Inr u \<Rightarrow> Inr [])))"
  using assms
  by (simp add: search_by_image_def get_new_page_def guarded_fst image_search_handler_fst
      split: sum.splits)

lemma search_by_text_screenshot:
  assumes "browser self = Some b" and "browser_new_page b = Inr page"
    and "fst (text_search_block self page q flag) = Inl e"
  shows "Screenshot (page_id page) ''error_text_search_page.png''
         \<in> set (snd (search_by_text self q flag))"
  using assms(1,2) text_search_handler_screenshot [of page e]
    guarded_handler_events [OF assms(3), of "text_search_handler page" "close page"]
  by (auto simp: search_by_text_def get_new_page_def)

lemma search_by_image_screenshot:
  assumes "browser self = Some b" and "browser_new_page b = Inr page"
    and "fst (image_search_block self page path) = Inl e"
  shows "Screenshot (page_id page) ''error_image_search_page.png''
         \<in> set (snd (search_by_image self path))"
  using assms(1,2) image_search_handler_screenshot [of page e]
    guarded_handler_events [OF assms(3), of "image_search_handler page" "close page"]
  by (auto simp: search_by_image_def get_new_page_def)


lemma iteration_extract_raises:
  assumes "item_text_content it (selector ''product_title'') = Inr title"
    and "item_text_content it (selector ''product_company_summary'') = Inr company"
    and "item_get_attribute it (selector ''product_link'') ''href'' = Inr href"
    and "normalize_url href = ValidUrl v"
    and "browser self = Some b"
    and "browser_contexts b i = ctx # others"
    and "fst (extract_product_details_from_product_page v ctx) = Inl e"
  shows "fst (iteration self i it) = Inr None"
proof -
  have "fst (fetch_full_details self i v (product_summary_of title company v)) = Inl e"
    using assms(5,6,7) by (simp add: fetch_full_details_def fst_then_do)
  then have "fst (process_item self i it) = Inl e"
    using assms(1,2,3,4)
    by (simp add: process_item_def fst_then_do text_content_def get_attribute_def)
  then show ?thesis
    by (simp add: iteration_fst processed_ok_def)
qed

text \<open>
  C8 (as amended). A diagnostic screenshot that fails is not swallowed where it is taken:
  its exception propagates to the enclosing handler. In the detail extractor it leaves the
  extractor once the page is closed, and the result-list parser skips the item. In the
  no-items handler of the parser it leaves the parser. In the handler of a search
  operation it is raised to the caller, where an empty list would have been returned.
\<close>

theorem screenshot_failure_propagates:
  "(ctx_new_page ctx = Inr p
      \<and> (page_goto p url = Inl e \<or> page_goto p url = Inr () \<and> page_content p = Inl e)
      \<and> page_screenshot p (''error_product_page_'' @ last_segment url @ ''.png'') = Inl e'
      \<and> page_close p = Inr () \<longrightarrow>
        fst (extract_product_details_from_product_page url ctx) = Inl e')
 \<and> (item_text_content it (selector ''product_title'') = Inr title
      \<and> item_text_content it (selector ''product_company_summary'') = Inr company
      \<and> item_get_attribute it (selector ''product_link'') ''href'' = Inr href
      \<and> normalize_url href = ValidUrl url
      \<and> browser self = Some b
      \<and> browser_contexts b i = ctx # others
      \<and> fst (extract_product_details_from_product_page url ctx) = Inl e' \<longrightarrow>
        fst (iteration self i it) = Inr None)
 \<and> (page_wait_for_selector page (selector ''product_item'') = Inl e
      \<and> page_screenshot page ''error_search_results_no_items.png'' = Inl e' \<longrightarrow>
        fst (parse_search_results self page) = Inl e')
 \<and> (browser self = Some b \<and> browser_new_page b = Inr page \<and> page_close page = Inr ()
      \<and> fst (text_search_block self page q flag) = Inl e \<longrightarrow>
        fst (search_by_text self q flag)
        = (case page_screenshot page ''error_text_search_page.png'' of
             Inl e' \<Rightarrow> Inl e'
           | Inr u \<Rightarrow> Inr []))
 \<and> (browser self = Some b \<and> browser_new_page b = Inr page \<and> page_close page = Inr ()
      \<and> fst (image_search_block self page path) = Inl e \<longrightarrow>
        fst (search_by_image self path)
        = (case page_screenshot page ''error_image_search_page.png'' of
             Inl e' \<Rightarrow> Inl e'
           | Inr u \<Rightarrow> Inr []))"
proof (intro conjI impI)
  assume a: "ctx_new_page ctx = Inr p
      \<and> (page_goto p url = Inl e \<or> page_goto p url = Inr () \<and> page_content p = Inl e)
      \<and> page_screenshot p (''error_product_page_'' @ last_segment url @ ''.png'') = Inl e'
      \<and> page_close p = Inr ()"
  then have body: "fst (extract_details_body url p (initial_details url)) = Inl e"
    by (auto simp: extract_details_body_fst)
  from a extract_failed_fst [OF _ body]
  show "fst (extract_product_details_from_product_page url ctx) = Inl e'"
    by (simp add: error_product_page_path_def)
next
  assume "item_text_content it (selector ''product_title'') = Inr title
      \<and> item_text_content it (selector ''product_company_summary'') = Inr company
      \<and> item_get_attribute it (selector ''product_link'') ''href'' = Inr href
      \<and> normalize_url href = ValidUrl url
      \<and> browser self = Some b
      \<and> browser_contexts b i = ctx # others
      \<and> fst (extract_product_details_from_product_page url ctx) = Inl e'"
  then show "fst (iteration self i it) = Inr None"
    using iteration_extract_raises [of it title company href url self b i ctx others e']
    by simp
next
  assume "page_wait_for_selector page (selector ''product_item'') = Inl e
      \<and> page_screenshot page ''error_search_results_no_items.png'' = Inl e'"
  then show "fst (parse_search_results self page) = Inl e'"
    using parse_search_results_no_items(1) [of page e self] by simp
next
  assume "browser self = Some b \<and> browser_new_page b = Inr page \<and> page_close page = Inr ()
      \<and> fst (text_search_block self page q flag) = Inl e"
  then show "fst (search_by_text self q flag)
        = (case page_screenshot page ''error_text_search_page.png'' of
             Inl e' \<Rightarrow> Inl e'
           | Inr u \<Rightarrow> Inr [])"
    using search_by_text_fst [of self b page q flag] by simp
next
  assume "browser self = Some b \<and> browser_new_page b = Inr page \<and> page_close page = Inr ()
      \<and> fst (image_search_block self page path) = Inl e"
  then show "fst (search_by_image self path)
        = (case page_screenshot page ''error_image_search_page.png'' of
             Inl e' \<Rightarrow> Inl e'
           | Inr u \<Rightarrow> Inr [])"
    using search_by_image_fst [of self b page path] by simp
qed

lemmas single_item_defs = single_item_page_def single_item_scraper_def

theorem screenshot_failure_propagates_witness:
  "fst (extract_product_details_from_product_page ''https://www.alibaba.com/product/0''
         \<lparr>ctx_new_page = Inr (unreachable_page 2 False)\<rparr>)
     = Inl (OSError ''Permission denied'')
 \<and> fst (iteration (single_item_scraper False) 0
          (ok_item 0 ''Product 0'' (Some ''https://www.alibaba.com/product/0''))) = Inr None
 \<and> fst (parse_search_results (single_item_scraper False) (empty_results_page 1 False))
     = Inl (OSError ''Permission denied'')
 \<and> fst (search_by_text (scraper_with (unreachable_page 1 False) (ok_page 2 [] [])) ''test product'' False)
     = Inl (OSError ''Permission denied'')
 \<and> fst (search_by_image (scraper_with (unreachable_page 1 False) (ok_page 2 [] [])) ''dummy_image.png'')
     = Inl (OSError ''Permission denied'')"
proof -
  let ?url = "''https://www.alibaba.com/product/0''"
  let ?p = "unreachable_page 2 False"
  let ?ctx = "\<lparr>ctx_new_page = Inr ?p\<rparr>"
  let ?it = "ok_item 0 ''Product 0'' (Some ?url)"
  let ?b = "\<lparr>browser_new_page = Inr single_item_page, browser_contexts = (\<lambda>i. [?ctx])\<rparr>"
  let ?down = "unreachable_page 1 False"
  let ?self = "scraper_with ?down (ok_page 2 [] [])"
  let ?b' = "\<lparr>browser_new_page = Inr ?down,
              browser_contexts = (\<lambda>i. [\<lparr>ctx_new_page = Inr (ok_page 2 [] [])\<rparr>])\<rparr>"
  let ?timeout = "TimeoutError ''Timeout 30000ms exceeded.''"
  let ?denied = "OSError ''Permission denied''"
  have detail: "ctx_new_page ?ctx = Inr ?p
      \<and> (page_goto ?p ?url = Inl ?timeout \<or> page_goto ?p ?url = Inr () \<and> page_content ?p = Inl ?timeout)
      \<and> page_screenshot ?p (''error_product_page_'' @ last_segment ?url @ ''.png'') = Inl ?denied
      \<and> page_close ?p = Inr ()"
    by (simp add: unreachable_page_def ok_page_def)
  note t1 = screenshot_failure_propagates [of ?ctx ?p ?url ?timeout ?denied,
      THEN conjunct1, THEN mp, OF detail]
  have item: "item_text_content ?it (selector ''product_title'') = Inr (Some ''Product 0'')
      \<and> item_text_content ?it (selector ''product_company_summary'') = Inr (Some ''Product 0'')
      \<and> item_get_attribute ?it (selector ''product_link'') ''href'' = Inr (Some ?url)
      \<and> normalize_url (Some ?url) = ValidUrl ?url
      \<and> browser (single_item_scraper False) = Some ?b
      \<and> browser_contexts ?b 0 = ?ctx # []
      \<and> fst (extract_product_details_from_product_page ?url ?ctx) = Inl ?denied"
    using t1
    by (simp add: ok_item_def normalize_url_def startswith_def single_item_defs scraper_with_def)
  note t2 = screenshot_failure_propagates [where url = ?url and e' = ?denied and it = ?it
      and title = "Some ''Product 0''" and company = "Some ''Product 0''" and href = "Some ?url"
      and self = "single_item_scraper False" and b = ?b and i = 0 and ctx = ?ctx and others = "[]",
      THEN conjunct2, THEN conjunct1, THEN mp, OF item]
  have no_items: "page_wait_for_selector (empty_results_page 1 False) (selector ''product_item'')
        = Inl (TimeoutError ''Timeout 15000ms exceeded.'')
      \<and> page_screenshot (empty_results_page 1 False) ''error_search_results_no_items.png''
        = Inl ?denied"
    by (simp add: empty_results_page_def ok_page_def)
  note t3 = screenshot_failure_propagates [where page = "empty_results_page 1 False"
      and self = "single_item_scraper False" and e' = ?denied
      and e = "TimeoutError ''Timeout 15000ms exceeded.''",
      THEN conjunct2, THEN conjunct2, THEN conjunct1, THEN mp, OF no_items]
  have by_text: "browser ?self = Some ?b' \<and> browser_new_page ?b' = Inr ?down \<and> page_close ?down = Inr ()
      \<and> fst (text_search_block ?self ?down ''test product'' False) = Inl ?timeout"
    by (simp add: scraper_with_def unreachable_page_def ok_page_def text_search_block_def
        text_search_steps_def goto_def)
  have by_image: "browser ?self = Some ?b' \<and> browser_new_page ?b' = Inr ?down \<and> page_close ?down = Inr ()
      \<and> fst (image_search_block ?self ?down ''dummy_image.png'') = Inl ?timeout"
    by (simp add: scraper_with_def unreachable_page_def ok_page_def image_search_block_def
        image_search_steps_def goto_def)
  from screenshot_failure_propagates [where self = ?self and b = ?b' and page = ?down
      and q = "''test product''" and flag = False and e = ?timeout,
      THEN conjunct2, THEN conjunct2, THEN conjunct2, THEN conjunct1, THEN mp, OF by_text]
  have t4: "fst (search_by_text ?self ''test product'' False) = Inl ?denied"
    by (simp add: unreachable_page_def ok_page_def)
  from screenshot_failure_propagates [where self = ?self and b = ?b' and page = ?down
      and path = "''dummy_image.png''" and e = ?timeout,
      THEN conjunct2, THEN conjunct2, THEN conjunct2, THEN conjunct2, THEN mp, OF by_image]
  have t5: "fst (search_by_image ?self ''dummy_image.png'') = Inl ?denied"
    by (simp add: unreachable_page_def ok_page_def)
  from t1 t2 t3 t4 t5 show ?thesis
    by (intro conjI)
qed

text \<open>
  The claim as stated fails: with the same results page and the same unreachable detail
  page, the search returns the record of the item, with its sentinel values, when the
  screenshot of the detail page is written, and no record at all when it cannot be.
\<close>

theorem screenshot_failure_counterexample:
  "fst (search_by_text (single_item_scraper True) ''test product'' False)
     = Inr [enriched_record (Some ''Product 0'') (Some ''Product 0'')
              ''https://www.alibaba.com/product/0'' ''N/A'']
 \<and> fst (search_by_text (single_item_scraper False) ''test product'' False) = Inr []"
  by (simp add: run_defs world_defs single_item_defs enriched_record_def)

text \<open>
  C2 (as amended). On an initialized scraper whose browser opens the search page, a search
  operation returns a list whenever the screenshot of its handler and the closing of the
  page do not raise: the list of the parser when the guarded block ran to its end, and the
  empty list, after the screenshot was taken, when anything in the guarded block (navigation,
  element lookup, a wait, the parse) raised.
\<close>

theorem search_returns_list:
  assumes "browser self = Some b" and "browser_new_page b = Inr page"
    and "page_close page = Inr ()"
    and "page_screenshot page ''error_text_search_page.png'' = Inr ()"
    and "page_screenshot page ''error_image_search_page.png'' = Inr ()"
  shows "fst (search_by_text self q flag)
         = Inr (case fst (text_search_block self page q flag) of Inl e \<Rightarrow> [] | Inr rs \<Rightarrow> rs)
       \<and> (\<forall>e. fst (text_search_block self page q flag) = Inl e \<longrightarrow>
            Screenshot (page_id page) ''error_text_search_page.png''
            \<in> set (snd (search_by_text self q flag)))
       \<and> fst (search_by_image self path)
         = Inr (case fst (image_search_block self page path) of Inl e \<Rightarrow> [] | Inr rs \<Rightarrow> rs)
       \<and> (\<forall>e. fst (image_search_block self page path) = Inl e \<longrightarrow>
            Screenshot (page_id page) ''error_image_search_page.png''
            \<in> set (snd (search_by_image self path)))"
proof (intro conjI allI impI)
  show "fst (search_by_text self q flag)
        = Inr (case fst (text_search_block self page q flag) of Inl e \<Rightarrow> [] | Inr rs \<Rightarrow> rs)"
    using assms(3,4) by (simp add: search_by_text_fst [OF assms(1,2)] split: sum.splits)
  show "fst (search_by_image self path)
        = Inr (case fst (image_search_block self page path) of Inl e \<Rightarrow> [] | Inr rs \<Rightarrow> rs)"
    using assms(3,5) by (simp add: search_by_image_fst [OF assms(1,2)] split: sum.splits)
next
  fix e assume "fst (text_search_block self page q flag) = Inl e"
  then show "Screenshot (page_id page) ''error_text_search_page.png''
             \<in> set (snd (search_by_text self q flag))"
    by (rule search_by_text_screenshot [OF assms(1,2)])
next
  fix e assume "fst (image_search_block self page path) = Inl e"
  then show "Screenshot (page_id page) ''error_image_search_page.png''
             \<in> set (snd (search_by_image self path))"
    by (rule search_by_image_screenshot [OF assms(1,2)])
qed

theorem search_returns_list_witness:
  "fst (text_search_block (scraper_with (unreachable_page 1 True) (ok_page 2 [] []))
          (unreachable_page 1 True) ''test product'' False)
     = Inl (TimeoutError ''Timeout 30000ms exceeded.'')
 \<and> fst (search_by_text (scraper_with (unreachable_page 1 True) (ok_page 2 [] [])) ''test product'' False)
     = Inr []
 \<and> Screenshot 1 ''error_text_search_page.png''
     \<in> set (snd (search_by_text (scraper_with (unreachable_page 1 True) (ok_page 2 [] []))
                   ''test product'' False))
 \<and> fst (search_by_image (scraper_with (unreachable_page 1 True) (ok_page 2 [] [])) ''dummy_image.png'')
     = Inr []
 \<and> Screenshot 1 ''error_image_search_page.png''
     \<in> set (snd (search_by_image (scraper_with (unreachable_page 1 True) (ok_page 2 [] []))
                   ''dummy_image.png''))"
proof -
  let ?down = "unreachable_page 1 True"
  let ?self = "scraper_with ?down (ok_page 2 [] [])"
  let ?b = "\<lparr>browser_new_page = Inr ?down,
             browser_contexts = (\<lambda>i. [\<lparr>ctx_new_page = Inr (ok_page 2 [] [])\<rparr>])\<rparr>"
  let ?timeout = "TimeoutError ''Timeout 30000ms exceeded.''"
  have b: "browser ?self = Some ?b" "browser_new_page ?b = Inr ?down"
    by (simp_all add: scraper_with_def)
  have quiet: "page_close ?down = Inr ()"
    "page_screenshot ?down ''error_text_search_page.png'' = Inr ()"
    "page_screenshot ?down ''error_image_search_page.png'' = Inr ()"
    by (simp_all add: unreachable_page_def ok_page_def)
  have id: "page_id ?down = 1"
    by (simp add: unreachable_page_def ok_page_def)
  have by_text: "fst (text_search_block ?self ?down ''test product'' False) = Inl ?timeout"
    by (simp add: unreachable_page_def ok_page_def text_search_block_def
        text_search_steps_def goto_def)
  have by_image: "fst (image_search_block ?self ?down ''dummy_image.png'') = Inl ?timeout"
    by (simp add: unreachable_page_def ok_page_def image_search_block_def
        image_search_steps_def goto_def)
  note all = search_returns_list [OF b quiet, of "''test product''" False "''dummy_image.png''",
      unfolded id by_text by_image sum.case]
  note t1 = all [THEN conjunct1]
  note t2 = all [THEN conjunct2, THEN conjunct1, rule_format, OF refl]
  note t3 = all [THEN conjunct2, THEN conjunct2, THEN conjunct1]
  note t4 = all [THEN conjunct2, THEN conjunct2, THEN conjunct2, rule_format, OF refl]
  from by_text t1 t2 t3 t4 show ?thesis
    by (intro conjI)
qed

text \<open>
  The claim as stated fails: on a page that has crashed, navigation raises, the
  screenshot of the handler raises too, and that exception leaves the call.
\<close>

theorem search_returns_list_counterexample:
  "fst (search_by_text (scraper_with (crashed_page 1) (ok_page 2 [] [])) ''test product'' False)
     = Inl (Error ''Page crashed'')
 \<and> fst (search_by_image (scraper_with (crashed_page 1) (ok_page 2 [] [])) ''dummy_image.png'')
     = Inl (Error ''Page crashed'')"
  by (simp add: run_defs world_defs)






subsection \<open>The smart-search flag\<close>

lemma driver_calls_append [simp]: "driver_calls (l @ l') = driver_calls l @ driver_calls l'"
  by (simp add: driver_calls_def)

lemma then_do_same_outcome:
  assumes "\<And>x. fst (f x) = fst (g x)"
  shows "fst (then_do m f) = fst (then_do m g)"
  using assms by (simp add: fst_then_do split: sum.splits)

lemma then_do_same_calls:
  assumes "\<And>x. fst (f x) = fst (g x)"
    and "\<And>x. driver_calls (snd (f x)) = driver_calls (snd (g x))"
  shows "driver_calls (snd (then_do m f)) = driver_calls (snd (then_do m g))"
  using assms by (simp add: snd_then_do split: sum.splits)

lemma flag_step:
  "fst (then_do (if flag then py_print note else ok ()) (\<lambda>_. py_print s)) = Inr ()"
  "driver_calls (snd (then_do (if flag then py_print note else ok ()) (\<lambda>_. py_print s))) = []"
  by (simp_all add: fst_then_do snd_then_do driver_calls_def)

lemma text_search_steps_flag:
  "fst (text_search_steps page q True) = fst (text_search_steps page q False)"
  "driver_calls (snd (text_search_steps page q True)) = driver_calls (snd (text_search_steps page q False))"
  unfolding text_search_steps_def Let_def
  by (intro then_do_same_outcome then_do_same_calls; simp only: flag_step)+

lemma text_search_block_flag:
  "fst (text_search_block self page q True) = fst (text_search_block self page q False)"
  "driver_calls (snd (text_search_block self page q True))
   = driver_calls (snd (text_search_block self page q False))"
  using text_search_steps_flag [of page q]
  by (simp_all add: text_search_block_def fst_then_do snd_then_do split: sum.splits)

text \<open>
  C9. With the same scraper, the same driver and the same query, \<open>search_by_text\<close>
  returns the same outcome (the same list of records, or the same exception) with the
  flag set and unset, and makes the same driver calls in the same order: the flag only
  adds a printed note.
\<close>

theorem smart_search_flag_ignored:
  "fst (search_by_text self q True) = fst (search_by_text self q False)
 \<and> driver_calls (snd (search_by_text self q True)) = driver_calls (snd (search_by_text self q False))"
proof (cases "fst (get_new_page self)")
  case (Inl e)
  then show ?thesis
    by (simp add: search_by_text_def then_do_def)
next
  case (Inr page)
  have "try_except (text_search_block self page q True) (text_search_handler page)
          = (fst (try_except (text_search_block self page q True) (text_search_handler page)),
             snd (try_except (text_search_block self page q True) (text_search_handler page)))"
    by simp
  have fsts: "fst (try_except (text_search_block self page q True) (text_search_handler page))
        = fst (try_except (text_search_block self page q False) (text_search_handler page))"
    using text_search_block_flag(1) [of self page q]
    by (simp add: try_except_def split: sum.splits)
  have snds: "driver_calls (snd (try_except (text_search_block self page q True) (text_search_handler page)))
        = driver_calls (snd (try_except (text_search_block self page q False) (text_search_handler page)))"
    using text_search_block_flag [of self page q]
    by (simp add: try_except_def split: sum.splits)
  from Inr fsts snds show ?thesis
    by (simp add: search_by_text_def then_do_def try_finally_def split: sum.splits)
qed

subsection \<open>The records a search returns\<close>









end
